theory Spec2Isabelle
  imports Main "HOL-Library.AList"
begin

section \<open>Values of the client library\<close>

text \<open>
  The module \<^verbatim>\<open>api_call/arium/api/request.py\<close> turns HTTP responses into Python values,
  retries on connection failures and polls server-side jobs. Python \<^verbatim>\<open>bytes\<close> are lists of
  8-bit characters; a Python \<^verbatim>\<open>str\<close> is a list of Unicode code points, so that decoding
  UTF-8 is a real step that can fail.
\<close>

type_synonym bytes = "char list"
type_synonym str = "nat list"

definition str_of :: "string \<Rightarrow> str" where
  \<comment> \<open>an ASCII literal of the source, as a Python \<^verbatim>\<open>str\<close>\<close>
  "str_of cs = map of_char cs"

text \<open>A response as the code reads it: \<^verbatim>\<open>status_code\<close>, \<^verbatim>\<open>headers\<close>, \<^verbatim>\<open>content\<close>.\<close>

record response =
  status_code :: nat
  headers :: "str \<rightharpoonup> str"
  content :: bytes

text \<open>What \<^verbatim>\<open>json.loads\<close> produces: \<^verbatim>\<open>None\<close>, booleans, numbers, strings, lists and dicts
  (a dict keeps its insertion order and has each key once).\<close>

datatype pyfloat = Finite int int | PosInf | NegInf | NaN

datatype json =
    JNull
  | JBool bool
  | JInt int
  | JFloat pyfloat
  | JString str
  | JArray "json list"
  | JObject "(str \<times> json) list"

text \<open>The four shapes \<^verbatim>\<open>get_content\<close> returns, tagged by the return statement that
  produced them: the raw \<^verbatim>\<open>bytes\<close>, the decoded \<^verbatim>\<open>str\<close>, the value of \<^verbatim>\<open>json.loads\<close>,
  the list of rows of \<^verbatim>\<open>csv.reader\<close>.\<close>

datatype content_value =
    RawBytes bytes
  | Text str
  | Structured json
  | Tabular "str list list"

datatype pytype = TBytes | TStr | TNone | TBool | TInt | TFloat | TList | TDict

text \<open>Exceptions. \<^verbatim>\<open>requests.exceptions.ConnectionError\<close> is the one kind \<^verbatim>\<open>retry\<close> catches;
  \<^verbatim>\<open>AriumAPACResponseException(response)\<close> is \<open>UnexpectedStatus\<close>; the bare
  \<^verbatim>\<open>Exception("Unexpected content type: ...")\<close> of the list operations is \<open>UnexpectedContentType\<close>.\<close>

datatype net_error = ConnectionError | OtherRequestError string

datatype exn =
    Net net_error
  | UnexpectedStatus response
  | UnexpectedContentType pytype
  | UnicodeDecodeError
  | UnicodeEncodeError
  | KeyError str
  | TypeError
  | AttributeError
  | OtherException string

datatype 'a outcome = Return 'a | Raise exn

section \<open>The world: network and clock\<close>

text \<open>
  Everything outside the module is the world. Each network call and each \<^verbatim>\<open>sleep\<close> is
  appended to a trace; the answer to the \<open>k\<close>-th network call is \<open>net w k\<close> applied to the
  request, either a response or the error the transport raises. A computation may not
  return (the polling loops have no bound), so it maps a world to an optional pair of
  outcome and new world.
\<close>

datatype http_method = GET | POST | PUT | DELETE

datatype event =
    Invoked
  | Slept nat
  | ClientCall http_method str "json option"
  | RequestsGet str bool
  | RequestsPut str bytes bool

record world =
  net :: "nat \<Rightarrow> event \<Rightarrow> net_error + response"
  trace :: "event list"

type_synonym 'a prog = "world \<Rightarrow> ('a outcome \<times> world) option"

fun is_network :: "event \<Rightarrow> bool" where
  "is_network (ClientCall m u b) = True"
| "is_network (RequestsGet u v) = True"
| "is_network (RequestsPut u d v) = True"
| "is_network _ = False"

definition net_calls :: "world \<Rightarrow> nat" where
  "net_calls w = length (filter is_network (trace w))"

fun is_client_call :: "event \<Rightarrow> bool" where
  "is_client_call (ClientCall m u b) = True"
| "is_client_call _ = False"

definition client_calls :: "world \<Rightarrow> nat" where
  "client_calls w = length (filter is_client_call (trace w))"

definition invocations :: "world \<Rightarrow> nat" where
  "invocations w = length (filter (\<lambda>e. e = Invoked) (trace w))"

fun slept :: "event \<Rightarrow> nat list" where
  "slept (Slept d) = [d]"
| "slept _ = []"

definition delays :: "world \<Rightarrow> nat list" where
  "delays w = concat (map slept (trace w))"

definition record_event :: "event \<Rightarrow> world \<Rightarrow> world" where
  "record_event e w = w\<lparr>trace := trace w @ [e]\<rparr>"

definition sleep :: "nat \<Rightarrow> world \<Rightarrow> world" where
  "sleep d w = record_event (Slept d) w"

definition network :: "event \<Rightarrow> response prog" where
  "network e w =
     (case net w (net_calls w) e of
        Inl err \<Rightarrow> Some (Raise (Net err), record_event e w)
      | Inr r \<Rightarrow> Some (Return r, record_event e w))"

definition bind_prog :: "'a prog \<Rightarrow> ('a \<Rightarrow> 'b prog) \<Rightarrow> 'b prog" where
  \<comment> \<open>statement sequencing: an exception of the first statement skips the rest\<close>
  "bind_prog m f w =
     (case m w of
        None \<Rightarrow> None
      | Some (Raise e, w') \<Rightarrow> Some (Raise e, w')
      | Some (Return x, w') \<Rightarrow> f x w')"

definition return_prog :: "'a \<Rightarrow> 'a prog" where
  "return_prog x w = Some (Return x, w)"

definition raise_prog :: "exn \<Rightarrow> 'a prog" where
  "raise_prog e w = Some (Raise e, w)"

definition outcome_prog :: "'a outcome \<Rightarrow> 'a prog" where
  "outcome_prog r w = Some (r, w)"

section \<open>The retry decorator\<close>

text \<open>
  \<^verbatim>\<open>
  def retry(times):
      def decorator(func):
          def f(*args, **kwargs):
              delay = 1
              attempt = 0
              while attempt < times:
                  try:
                      return func(*args, **kwargs)
                  except requests.exceptions.ConnectionError as e:
                      ...
                      attempt += 1
                      sleep(delay)
                      delay *= 2
              return func(*args, **kwargs)
  \<close>
\<close>

fun is_connection_error :: "exn \<Rightarrow> bool" where
  "is_connection_error (Net ConnectionError) = True"
| "is_connection_error _ = False"

function retry_loop :: "nat \<Rightarrow> 'a prog \<Rightarrow> nat \<Rightarrow> nat \<Rightarrow> 'a prog" where
  "retry_loop ntimes func delay attempt w =
     (if attempt < ntimes then
        (case func w of
           None \<Rightarrow> None
         | Some (Return v, w') \<Rightarrow> Some (Return v, w')
         | Some (Raise e, w') \<Rightarrow>
             if is_connection_error e
             then retry_loop ntimes func (delay * 2) (attempt + 1) (sleep delay w')
             else Some (Raise e, w'))
      else func w)"
  by pat_completeness auto
termination
  by (relation "measure (\<lambda>(ntimes, func, delay, attempt, w). ntimes - attempt)") auto

definition retry :: "nat \<Rightarrow> 'a prog \<Rightarrow> 'a prog" where
  "retry ntimes func = retry_loop ntimes func 1 0"

text \<open>An operation whose \<open>k\<close>-th invocation (counted from 0 over the whole run) ends as
  \<open>out k\<close> says; each invocation is recorded in the trace.\<close>

definition operation :: "(nat \<Rightarrow> 'a outcome) \<Rightarrow> 'a prog" where
  "operation out w = Some (out (invocations w), record_event Invoked w)"

text \<open>The trace of \<open>m\<close> failed attempts, each the event \<open>ev\<close> followed by its sleep; the
  first sleep lasts \<open>d\<close>.\<close>

fun failures :: "event \<Rightarrow> nat \<Rightarrow> nat \<Rightarrow> event list" where
  "failures ev d 0 = []"
| "failures ev d (Suc m) = ev # Slept d # failures ev (d * 2) m"

section \<open>Library functions the decoder calls\<close>

text \<open>\<^verbatim>\<open>bytes.splitlines()\<close>: the lines without their ends; a line ends at \<^verbatim>\<open>\n\<close>, at
  \<^verbatim>\<open>\r\n\<close> or at a lone \<^verbatim>\<open>\r\<close>, and there is no empty last line.\<close>

fun splitlines_from :: "bytes \<Rightarrow> bytes \<Rightarrow> bytes list" where
  "splitlines_from cur [] = (if cur = [] then [] else [cur])"
| "splitlines_from cur (c # cs) =
     (if c = CHR 0x0D then
        (case cs of
           d # ds \<Rightarrow> if d = CHR 0x0A then cur # splitlines_from [] ds
                     else cur # splitlines_from [] cs
         | [] \<Rightarrow> cur # splitlines_from [] cs)
      else if c = CHR 0x0A then cur # splitlines_from [] cs
      else splitlines_from (cur @ [c]) cs)"

definition splitlines :: "bytes \<Rightarrow> bytes list" where
  "splitlines b = splitlines_from [] b"

text \<open>The strict UTF-8 decoder, byte by byte, as the incremental decoder of \<^verbatim>\<open>codecs\<close>
  keeps it: \<open>Pending n acc lo hi\<close> waits for \<open>n\<close> more continuation bytes, the next one
  within \<open>lo..hi\<close> (which excludes overlong forms, surrogates and code points beyond
  U+10FFFF), with \<open>acc\<close> the bits read so far.\<close>

datatype utf8_state = Start | Pending nat nat nat nat

fun utf8_feed :: "utf8_state \<Rightarrow> nat \<Rightarrow> (utf8_state \<times> str) option" where
  "utf8_feed Start b =
     (if b < 0x80 then Some (Start, [b])
      else if 0xC2 \<le> b \<and> b \<le> 0xDF then Some (Pending 1 (b - 0xC0) 0x80 0xBF, [])
      else if b = 0xE0 then Some (Pending 2 0 0xA0 0xBF, [])
      else if b = 0xED then Some (Pending 2 0xD 0x80 0x9F, [])
      else if 0xE1 \<le> b \<and> b \<le> 0xEF then Some (Pending 2 (b - 0xE0) 0x80 0xBF, [])
      else if b = 0xF0 then Some (Pending 3 0 0x90 0xBF, [])
      else if 0xF1 \<le> b \<and> b \<le> 0xF3 then Some (Pending 3 (b - 0xF0) 0x80 0xBF, [])
      else if b = 0xF4 then Some (Pending 3 4 0x80 0x8F, [])
      else None)"
| "utf8_feed (Pending n acc lo hi) b =
     (if lo \<le> b \<and> b \<le> hi then
        (if n = 1 then Some (Start, [acc * 64 + (b - 0x80)])
         else Some (Pending (n - 1) (acc * 64 + (b - 0x80)) 0x80 0xBF, []))
      else None)"

text \<open>The states the decoder can be in: a continuation byte is never ASCII.\<close>

fun ok_state :: "utf8_state \<Rightarrow> bool" where
  "ok_state Start = True"
| "ok_state (Pending n acc lo hi) = (0x80 \<le> lo)"

fun utf8_chunk :: "utf8_state \<Rightarrow> bytes \<Rightarrow> (str \<times> utf8_state) option" where
  "utf8_chunk st [] = Some ([], st)"
| "utf8_chunk st (c # cs) =
     (case utf8_feed st (of_char c) of
        None \<Rightarrow> None
      | Some (st', out) \<Rightarrow>
          (case utf8_chunk st' cs of
             None \<Rightarrow> None
           | Some (s, st'') \<Rightarrow> Some (out @ s, st'')))"

text \<open>\<^verbatim>\<open>b.decode("utf-8")\<close>; \<open>None\<close> stands for \<^verbatim>\<open>UnicodeDecodeError\<close>.\<close>

definition decode_utf8 :: "bytes \<Rightarrow> str option" where
  "decode_utf8 b =
     (case utf8_chunk Start b of
        Some (s, Start) \<Rightarrow> Some s
      | _ \<Rightarrow> None)"

text \<open>\<^verbatim>\<open>codecs.iterdecode(lines, "utf-8")\<close>: one decoder is fed line after line, an empty
  output is not yielded, and bytes left pending at the end are an error.\<close>

fun iterdecode :: "utf8_state \<Rightarrow> bytes list \<Rightarrow> str list option" where
  "iterdecode st [] = (if st = Start then Some [] else None)"
| "iterdecode st (l # ls) =
     (case utf8_chunk st l of
        None \<Rightarrow> None
      | Some (out, st') \<Rightarrow>
          (case iterdecode st' ls of
             None \<Rightarrow> None
           | Some outs \<Rightarrow> Some (if out = [] then outs else out # outs)))"

text \<open>\<^verbatim>\<open>csv.reader\<close> with the default dialect (quote character \<^verbatim>\<open>"\<close>, doubled quotes, no
  escape character, not strict) and the given delimiter: the state machine of CPython's
  \<^verbatim>\<open>_csv.c\<close>, fed the characters of each line and then the end of the line (\<open>None\<close>). A
  field of more than 131072 characters is an error.\<close>

datatype csv_state =
  START_RECORD | START_FIELD | IN_FIELD | IN_QUOTED_FIELD | QUOTE_IN_QUOTED_FIELD | EAT_CRNL

record csv_parser =
  rstate :: csv_state
  rfield :: str
  rfields :: "str list"

definition field_limit :: nat where
  "field_limit = 131072"

definition parse_reset :: csv_parser where
  "parse_reset = \<lparr>rstate = START_RECORD, rfield = [], rfields = []\<rparr>"

definition parse_add_char :: "csv_parser \<Rightarrow> nat \<Rightarrow> csv_parser option" where
  "parse_add_char p c =
     (if length (rfield p) \<ge> field_limit then None
      else Some (p\<lparr>rfield := rfield p @ [c]\<rparr>))"

definition parse_save_field :: "csv_parser \<Rightarrow> csv_parser" where
  "parse_save_field p = p\<lparr>rfields := rfields p @ [rfield p], rfield := []\<rparr>"

definition is_newline :: "nat \<Rightarrow> bool" where
  "is_newline c = (c = 0x0A \<or> c = 0x0D)"

definition quotechar :: nat where
  "quotechar = 0x22"

definition start_field :: "nat \<Rightarrow> csv_parser \<Rightarrow> nat option \<Rightarrow> csv_parser option" where
  "start_field delimiter p ch =
     (case ch of
        None \<Rightarrow> Some ((parse_save_field p)\<lparr>rstate := START_RECORD\<rparr>)
      | Some c \<Rightarrow>
      if is_newline c then Some ((parse_save_field p)\<lparr>rstate := EAT_CRNL\<rparr>)
      else if c = quotechar then Some (p\<lparr>rstate := IN_QUOTED_FIELD\<rparr>)
      else if c = delimiter then Some (parse_save_field p)
      else map_option (\<lambda>q. q\<lparr>rstate := IN_FIELD\<rparr>) (parse_add_char p c))"

definition parse_process_char :: "nat \<Rightarrow> csv_parser \<Rightarrow> nat option \<Rightarrow> csv_parser option" where
  "parse_process_char delimiter p ch =
     (case rstate p of
        START_RECORD \<Rightarrow>
          (case ch of
             None \<Rightarrow> Some p
           | Some c \<Rightarrow>
               if is_newline c then Some (p\<lparr>rstate := EAT_CRNL\<rparr>)
               else start_field delimiter (p\<lparr>rstate := START_FIELD\<rparr>) ch)
      | START_FIELD \<Rightarrow> start_field delimiter p ch
      | IN_FIELD \<Rightarrow>
          (case ch of
             None \<Rightarrow> Some ((parse_save_field p)\<lparr>rstate := START_RECORD\<rparr>)
           | Some c \<Rightarrow>
               if is_newline c then Some ((parse_save_field p)\<lparr>rstate := EAT_CRNL\<rparr>)
               else if c = delimiter then Some ((parse_save_field p)\<lparr>rstate := START_FIELD\<rparr>)
               else parse_add_char p c)
      | IN_QUOTED_FIELD \<Rightarrow>
          (case ch of
             None \<Rightarrow> Some p
           | Some c \<Rightarrow>
               if c = quotechar then Some (p\<lparr>rstate := QUOTE_IN_QUOTED_FIELD\<rparr>)
               else parse_add_char p c)
      | QUOTE_IN_QUOTED_FIELD \<Rightarrow>
          (case ch of
             None \<Rightarrow> Some ((parse_save_field p)\<lparr>rstate := START_RECORD\<rparr>)
           | Some c \<Rightarrow>
               if c = quotechar
               then map_option (\<lambda>q. q\<lparr>rstate := IN_QUOTED_FIELD\<rparr>) (parse_add_char p c)
               else if c = delimiter then Some ((parse_save_field p)\<lparr>rstate := START_FIELD\<rparr>)
               else if is_newline c then Some ((parse_save_field p)\<lparr>rstate := EAT_CRNL\<rparr>)
               else map_option (\<lambda>q. q\<lparr>rstate := IN_FIELD\<rparr>) (parse_add_char p c))
      | EAT_CRNL \<Rightarrow>
          (case ch of
             None \<Rightarrow> Some (p\<lparr>rstate := START_RECORD\<rparr>)
           | Some c \<Rightarrow> if is_newline c then Some p else None))"

fun parse_line :: "nat \<Rightarrow> csv_parser \<Rightarrow> str \<Rightarrow> csv_parser option" where
  "parse_line delimiter p [] = parse_process_char delimiter p None"
| "parse_line delimiter p (c # cs) =
     (case parse_process_char delimiter p (Some c) of
        None \<Rightarrow> None
      | Some p' \<Rightarrow> parse_line delimiter p' cs)"

fun reader_rows :: "nat \<Rightarrow> csv_parser \<Rightarrow> str list \<Rightarrow> str list list option" where
  "reader_rows delimiter p [] =
     (if rfield p \<noteq> [] \<or> rstate p = IN_QUOTED_FIELD
      then Some [rfields (parse_save_field p)] else Some [])"
| "reader_rows delimiter p (l # ls) =
     (case parse_line delimiter p l of
        None \<Rightarrow> None
      | Some p' \<Rightarrow>
          if rstate p' = START_RECORD
          then map_option (\<lambda>rows. rfields p' # rows) (reader_rows delimiter parse_reset ls)
          else reader_rows delimiter p' ls)"

definition csv_reader :: "str list \<Rightarrow> str \<Rightarrow> str list list option" where
  "csv_reader lines delimiter =
     (case delimiter of
        [d] \<Rightarrow> reader_rows d parse_reset lines
      | _ \<Rightarrow> None)"

text \<open>
  \<^verbatim>\<open>
  def read_csv(data, delimiter: str = ","):
      reader = csv.reader(codecs.iterdecode(data, "utf-8"), delimiter=delimiter)
      for row in reader:
          yield row
  \<close>
  The rows are consumed with \<^verbatim>\<open>list(...)\<close>, so an error anywhere in the lines is an error
  of the whole; \<open>None\<close> stands for it.
\<close>

definition read_csv :: "bytes list \<Rightarrow> str \<Rightarrow> str list list option" where
  "read_csv data delimiter =
     (case iterdecode Start data of
        None \<Rightarrow> None
      | Some lines \<Rightarrow> csv_reader lines delimiter)"

text \<open>\<^verbatim>\<open>str.encode("utf-8")\<close>; a surrogate cannot be encoded.\<close>

definition encode_char :: "nat \<Rightarrow> bytes option" where
  "encode_char c =
     (if c < 0x80 then Some [char_of c]
      else if c < 0x800 then Some [char_of (0xC0 + c div 64), char_of (0x80 + c mod 64)]
      else if 0xD800 \<le> c \<and> c \<le> 0xDFFF then None
      else if c < 0x10000 then
        Some [char_of (0xE0 + c div 4096), char_of (0x80 + c div 64 mod 64),
              char_of (0x80 + c mod 64)]
      else if c < 0x110000 then
        Some [char_of (0xF0 + c div 262144), char_of (0x80 + c div 4096 mod 64),
              char_of (0x80 + c div 64 mod 64), char_of (0x80 + c mod 64)]
      else None)"

fun encode_utf8 :: "str \<Rightarrow> bytes option" where
  "encode_utf8 [] = Some []"
| "encode_utf8 (c # cs) =
     (case encode_char c of
        None \<Rightarrow> None
      | Some b \<Rightarrow> map_option (\<lambda>bs. b @ bs) (encode_utf8 cs))"

text \<open>\<^verbatim>\<open>bytes.strip()\<close> removes ASCII whitespace at both ends.\<close>

definition is_space :: "char \<Rightarrow> bool" where
  "is_space c = (c \<in> {CHR 0x20, CHR 0x09, CHR 0x0A, CHR 0x0B, CHR 0x0C, CHR 0x0D})"

definition strip :: "bytes \<Rightarrow> bytes" where
  "strip b = rev (dropWhile is_space (rev (dropWhile is_space b)))"

text \<open>
  What the module takes from libraries without a model of their own here: the JSON
  parser (\<open>None\<close> when \<^verbatim>\<open>json.loads\<close> raises), the archive reader (\<open>None\<close> when
  \<^verbatim>\<open>zipfile.ZipFile\<close> raises, else the entries in archive order, each with its name and its
  data or \<open>None\<close> when reading it raises), the text of a value inside an f-string, and
  \<^verbatim>\<open>urllib.parse.urlencode\<close>.
\<close>

record pylib =
  json_loads :: "bytes \<Rightarrow> json option"
  zip_open :: "bytes \<Rightarrow> (str \<times> bytes option) list option"
  py_repr :: "json \<Rightarrow> str"
  urlencode :: "(str \<times> json) list \<Rightarrow> str"

section \<open>The content decoder\<close>

definition exception_handler :: "'a prog \<Rightarrow> 'a prog" where
  \<comment> \<open>Modelled from the spec: the decorator \<^verbatim>\<open>exception_handler\<close> of
      \<^verbatim>\<open>api_call/arium/api/exceptions.py\<close>, which is not among the sources. The spec
      (section 7) calls it an outer collaborator that presents and logs the failures the
      core raises, so results and exceptions pass through it.\<close>
  "exception_handler func = func"

definition accepted :: "nat list option \<Rightarrow> nat list" where
  \<comment> \<open>\<^verbatim>\<open>if accept is None: accept = [HTTPStatus.OK, HTTPStatus.NO_CONTENT]\<close>\<close>
  "accepted accept = (case accept of None \<Rightarrow> [200, 204] | Some codes \<Rightarrow> codes)"

definition zip_first :: "pylib \<Rightarrow> bytes \<Rightarrow> bytes option" where
  \<comment> \<open>\<^verbatim>\<open>input_zip.read(input_zip.namelist()[0])\<close>: reading by name finds the last entry
      of that name\<close>
  "zip_first lib b =
     (case zip_open lib b of
        None \<Rightarrow> None
      | Some entries \<Rightarrow>
          (case map fst entries of
             [] \<Rightarrow> None
           | name # names \<Rightarrow> snd (last (filter (\<lambda>e. fst e = name) entries))))"

definition decode_body :: "pylib \<Rightarrow> bool \<Rightarrow> bool \<Rightarrow> bytes \<Rightarrow> content_value option" where
  \<comment> \<open>the \<^verbatim>\<open>try\<close> block; \<open>None\<close> when it raises an \<^verbatim>\<open>Exception\<close>\<close>
  "decode_body lib csv_content unzip b =
     (if \<not> csv_content then map_option Structured (json_loads lib b)
      else
        (case (if unzip then zip_first lib b else Some b) of
           None \<Rightarrow> None
         | Some c \<Rightarrow> map_option Tabular (read_csv (splitlines c) (str_of '',''))))"

text \<open>
  \<^verbatim>\<open>
  @exception_handler
  @retry(times=10)
  def get_content(response, accept=None, load=True, get_from_location=True, verify=True,
                  csv_content: bool = False, unzip: bool = True):
      if accept is None:
          accept = [HTTPStatus.OK, HTTPStatus.NO_CONTENT]
      if response.status_code in accept:
          if get_from_location:
              location_header = response.headers.get("Location", None)
              if location_header:
                  response = requests.get(url=location_header, verify=verify)
          content = response.content
          if not load:
              return content
          try:
              if not csv_content:
                  content = json.loads(response.content)
              else:
                  if unzip:
                      with zipfile.ZipFile(BytesIO(response.content)) as input_zip:
                          content = input_zip.read(input_zip.namelist()[0])
                  else:
                      content = response.content
                  content = list(read_csv(content.splitlines(), delimiter=","))
          except Exception as e:
              logger.debug(e)
              return response.content.decode("utf-8")
          return content
      else:
          raise AriumAPACResponseException(response)
  \<close>
\<close>

definition follow_location :: "response \<Rightarrow> bool \<Rightarrow> bool \<Rightarrow> response prog" where
  \<comment> \<open>the statements under \<^verbatim>\<open>if get_from_location:\<close>; an empty header value is falsy\<close>
  "follow_location response get_from_location verify =
     (if get_from_location then
        (case headers response (str_of ''Location'') of
           None \<Rightarrow> return_prog response
         | Some location_header \<Rightarrow>
             if location_header \<noteq> []
             then network (RequestsGet location_header verify)
             else return_prog response)
      else return_prog response)"

definition decode_response :: "pylib \<Rightarrow> bool \<Rightarrow> bool \<Rightarrow> bool \<Rightarrow> response \<Rightarrow> content_value outcome" where
  \<comment> \<open>from \<^verbatim>\<open>content = response.content\<close> to \<^verbatim>\<open>return content\<close>\<close>
  "decode_response lib load csv_content unzip response =
     (if \<not> load then Return (RawBytes (content response))
      else
        (case decode_body lib csv_content unzip (content response) of
           Some c \<Rightarrow> Return c
         | None \<Rightarrow>
             (case decode_utf8 (content response) of
                Some t \<Rightarrow> Return (Text t)
              | None \<Rightarrow> Raise UnicodeDecodeError)))"

definition get_content_body ::
  "pylib \<Rightarrow> response \<Rightarrow> nat list option \<Rightarrow> bool \<Rightarrow> bool \<Rightarrow> bool \<Rightarrow> bool \<Rightarrow> bool
    \<Rightarrow> content_value prog" where
  "get_content_body lib response accept load get_from_location verify csv_content unzip =
     (if status_code response \<in> set (accepted accept) then
        bind_prog (follow_location response get_from_location verify)
          (\<lambda>response. outcome_prog (decode_response lib load csv_content unzip response))
      else raise_prog (UnexpectedStatus response))"

definition get_content ::
  "pylib \<Rightarrow> response \<Rightarrow> nat list option \<Rightarrow> bool \<Rightarrow> bool \<Rightarrow> bool \<Rightarrow> bool \<Rightarrow> bool
    \<Rightarrow> content_value prog" where
  "get_content lib response accept load get_from_location verify csv_content unzip =
     exception_handler
       (retry 10
          (get_content_body lib response accept load get_from_location verify csv_content unzip))"

text \<open>The outcome of a call whose redirect was answered by \<open>ans\<close>: the transport's
  error, or the decoding of the response fetched.\<close>

definition fetched :: "pylib \<Rightarrow> bool \<Rightarrow> bool \<Rightarrow> bool \<Rightarrow> net_error + response \<Rightarrow> content_value outcome" where
  "fetched lib load csv unzip ans =
     (case ans of Inl e \<Rightarrow> Raise (Net e) | Inr r2 \<Rightarrow> decode_response lib load csv unzip r2)"

section \<open>Asset operations and polling\<close>

text \<open>\<^verbatim>\<open>content[key]\<close> on what \<^verbatim>\<open>get_content\<close> returned: only a dict has string keys.\<close>

definition subscript :: "content_value \<Rightarrow> str \<Rightarrow> json outcome" where
  "subscript c key =
     (case c of
        Structured (JObject items) \<Rightarrow>
          (case map_of items key of
             Some v \<Rightarrow> Return v
           | None \<Rightarrow> Raise (KeyError key))
      | _ \<Rightarrow> Raise TypeError)"

fun is_dict :: "content_value \<Rightarrow> bool" where
  "is_dict (Structured (JObject items)) = True"
| "is_dict _ = False"

fun type_of_json :: "json \<Rightarrow> pytype" where
  "type_of_json JNull = TNone"
| "type_of_json (JBool b) = TBool"
| "type_of_json (JInt i) = TInt"
| "type_of_json (JFloat f) = TFloat"
| "type_of_json (JString s) = TStr"
| "type_of_json (JArray xs) = TList"
| "type_of_json (JObject items) = TDict"

fun type_of :: "content_value \<Rightarrow> pytype" where
  "type_of (RawBytes b) = TBytes"
| "type_of (Text t) = TStr"
| "type_of (Structured j) = type_of_json j"
| "type_of (Tabular rows) = TList"

definition py_str :: "pylib \<Rightarrow> json \<Rightarrow> str" where
  \<comment> \<open>a value inside an f-string: a string stands for itself\<close>
  "py_str lib v = (case v of JString s \<Rightarrow> s | _ \<Rightarrow> py_repr lib v)"

text \<open>
  \<^verbatim>\<open>
  @exception_handler
  def asset_get(client, collection, asset_id, status=True):
      endpoint = f"/{{tenant}}/{collection}/assets/{asset_id}"
      response = client.get_request(endpoint=endpoint)
      content = get_content(response=response)
      if status:
          logger.info(f"Got {collection}/{asset_id}.")
      return content
  \<close>
  The client's transport is the world; its calls are \<open>ClientCall\<close> events.
\<close>

definition asset_get :: "pylib \<Rightarrow> str \<Rightarrow> json \<Rightarrow> bool \<Rightarrow> content_value prog" where
  "asset_get lib collection asset_id status =
     exception_handler
       (bind_prog
          (network (ClientCall GET
             (str_of ''/{tenant}/'' @ collection @ str_of ''/assets/'' @ py_str lib asset_id) None))
          (\<lambda>response.
             bind_prog (get_content lib response None True True True False True)
               (\<lambda>content. return_prog content)))"

text \<open>
  \<^verbatim>\<open>
  @exception_handler
  def asset_list(client, collection, latest=True):
      endpoint = f"/{{tenant}}/{collection}/assets?latest={str(latest).lower()}"
      response = client.get_request(endpoint=endpoint)
      content = get_content(response=response)
      if isinstance(content, dict):
          logger.info(f"Found {content['count']} of {content['total']} {collection}.")
          return content["content"]
      else:
          raise Exception("Unexpected content type: {}.".format(type(content)))
  \<close>
\<close>

definition asset_list :: "pylib \<Rightarrow> str \<Rightarrow> bool \<Rightarrow> json prog" where
  "asset_list lib collection latest =
     exception_handler
       (bind_prog
          (network (ClientCall GET
             (str_of ''/{tenant}/'' @ collection @ str_of ''/assets?latest=''
                @ (if latest then str_of ''true'' else str_of ''false'')) None))
          (\<lambda>response.
             bind_prog (get_content lib response None True True True False True)
               (\<lambda>content.
                  if is_dict content then
                    bind_prog (outcome_prog (subscript content (str_of ''count'')))
                      (\<lambda>count.
                         bind_prog (outcome_prog (subscript content (str_of ''total'')))
                           (\<lambda>total. outcome_prog (subscript content (str_of ''content''))))
                  else raise_prog (UnexpectedContentType (type_of content)))))"

text \<open>
  \<^verbatim>\<open>
  def asset_polling(client, collection, asset_id):
      asset = asset_get(client=client, collection=collection, asset_id=asset_id, status=False)
      while asset["status"] in ("uploading", "processing"):
          asset = asset_get(client=client, collection=collection, asset_id=asset_id,
                            status=False)
          sleep(1.0)
          logger.debug(f"Polling {collection} {asset_id}...")
      logger.info("Upload finished.")
      return asset["status"]
  \<close>
  The loop has no bound: where it never ends, the model has no result.
\<close>

partial_function (option) asset_polling_loop ::
  "pylib \<Rightarrow> str \<Rightarrow> json \<Rightarrow> content_value \<Rightarrow> world \<Rightarrow> (json outcome \<times> world) option" where
  "asset_polling_loop lib collection asset_id asset w =
     (case subscript asset (str_of ''status'') of
        Raise e \<Rightarrow> Some (Raise e, w)
      | Return st \<Rightarrow>
          if st = JString (str_of ''uploading'') \<or> st = JString (str_of ''processing'') then
            (case asset_get lib collection asset_id False w of
               None \<Rightarrow> None
             | Some (Raise e, w') \<Rightarrow> Some (Raise e, w')
             | Some (Return asset', w') \<Rightarrow>
                 asset_polling_loop lib collection asset_id asset' (sleep 1 w'))
          else Some (Return st, w))"

definition asset_polling :: "pylib \<Rightarrow> str \<Rightarrow> json \<Rightarrow> json prog" where
  "asset_polling lib collection asset_id =
     bind_prog (asset_get lib collection asset_id False)
       (\<lambda>asset. asset_polling_loop lib collection asset_id asset)"

text \<open>
  \<^verbatim>\<open>
  def _assets_db_polling(client, db, collection, copy_id):
      accept = [HTTPStatus.OK, HTTPStatus.ACCEPTED, HTTPStatus.PROCESSING]
      response = client.get_request(endpoint=f"/{{tenant}}/{collection}/assets/{db}/{copy_id}")
      content = get_content(response=response, accept=accept)
      while content["state"] in ("uploading", "processing"):
          response = client.get_request(
              endpoint=f"/{{tenant}}/{collection}/assets/{db}/{copy_id}")
          content = get_content(response=response, accept=accept)
          sleep(1.0)
          logger.debug("Polling...")
      logger.info("Finished.")
      return content
  \<close>
\<close>

definition db_check :: "pylib \<Rightarrow> str \<Rightarrow> str \<Rightarrow> json \<Rightarrow> content_value prog" where
  \<comment> \<open>the two statements that fetch and decode the job's record\<close>
  "db_check lib db collection copy_id =
     bind_prog
       (network (ClientCall GET
          (str_of ''/{tenant}/'' @ collection @ str_of ''/assets/'' @ db @ str_of ''/''
             @ py_str lib copy_id) None))
       (\<lambda>response. get_content lib response (Some [200, 202, 102]) True True True False True)"

partial_function (option) assets_db_polling_loop ::
  "pylib \<Rightarrow> str \<Rightarrow> str \<Rightarrow> json \<Rightarrow> content_value \<Rightarrow> world
    \<Rightarrow> (content_value outcome \<times> world) option" where
  "assets_db_polling_loop lib db collection copy_id job w =
     (case subscript job (str_of ''state'') of
        Raise e \<Rightarrow> Some (Raise e, w)
      | Return st \<Rightarrow>
          if st = JString (str_of ''uploading'') \<or> st = JString (str_of ''processing'') then
            (case db_check lib db collection copy_id w of
               None \<Rightarrow> None
             | Some (Raise e, w') \<Rightarrow> Some (Raise e, w')
             | Some (Return job', w') \<Rightarrow>
                 assets_db_polling_loop lib db collection copy_id job' (sleep 1 w'))
          else Some (Return job, w))"

definition assets_db_polling :: "pylib \<Rightarrow> str \<Rightarrow> str \<Rightarrow> json \<Rightarrow> content_value prog" where
  "assets_db_polling lib db collection copy_id =
     bind_prog (db_check lib db collection copy_id)
       (\<lambda>job. assets_db_polling_loop lib db collection copy_id job)"

text \<open>
  \<^verbatim>\<open>
  @exception_handler
  @retry(times=10)
  def asset_post(client, collection, asset_name, data, params=None, presigned=False,
                 wait=True, verify=True):
      url_params = {
          "assetName": asset_name,
          **({"assetPayloadMode": presigned} if presigned else {}),
      }
      if params is not None:
          url_params.update(params)
      url_params = urlencode(url_params)
      endpoint = f"/{{tenant}}/{collection}/assets?{url_params}"
      json_data = data if not presigned else None
      response = client.post_request(endpoint=endpoint, json=json_data)
      location_header = response.headers.get("Location", None)
      content = get_content(response, get_from_location=False)
      if location_header is None:
          logger.info(f"Created {content['id']} ({collection}).")
          return content
      else:
          logger.info(f"Uploading {collection}/{asset_name}.")
          with BytesIO(data.encode("utf-8").strip()) as stream:
              requests.put(url=location_header, data=stream, verify=verify)
          if wait:
              logger.info(f"Waiting for response ... {collection}/{asset_name}.")
              asset_polling(client=client, collection=collection, asset_id=content["id"])
          return asset_get(client=client, collection=collection, asset_id=content["id"],
                           status=False)
  \<close>
  \<^verbatim>\<open>data\<close> is a string or a dict; only a string has \<^verbatim>\<open>encode\<close>.
\<close>

definition dict_update :: "(str \<times> json) list \<Rightarrow> (str \<times> json) list \<Rightarrow> (str \<times> json) list" where
  \<comment> \<open>\<^verbatim>\<open>d.update(params)\<close>: a key already there keeps its place and takes the new value\<close>
  "dict_update d params = fold (\<lambda>kv acc. AList.update (fst kv) (snd kv) acc) params d"

definition encode_data :: "json \<Rightarrow> bytes outcome" where
  "encode_data data =
     (case data of
        JString s \<Rightarrow>
          (case encode_utf8 s of
             Some b \<Rightarrow> Return b
           | None \<Rightarrow> Raise UnicodeEncodeError)
      | _ \<Rightarrow> Raise AttributeError)"

definition post_endpoint :: "pylib \<Rightarrow> str \<Rightarrow> str \<Rightarrow> (str \<times> json) list option \<Rightarrow> bool \<Rightarrow> str" where
  \<comment> \<open>the statements that build \<^verbatim>\<open>endpoint\<close>\<close>
  "post_endpoint lib collection asset_name params presigned =
     (let url_params = (str_of ''assetName'', JString asset_name)
            # (if presigned then [(str_of ''assetPayloadMode'', JBool presigned)] else []);
          url_params = (case params of None \<Rightarrow> url_params
                        | Some ps \<Rightarrow> dict_update url_params ps)
      in str_of ''/{tenant}/'' @ collection @ str_of ''/assets?'' @ urlencode lib url_params)"

definition asset_post_body ::
  "pylib \<Rightarrow> str \<Rightarrow> str \<Rightarrow> json \<Rightarrow> (str \<times> json) list option \<Rightarrow> bool \<Rightarrow> bool \<Rightarrow> bool
    \<Rightarrow> content_value prog" where
  "asset_post_body lib collection asset_name data params presigned wait verify =
     bind_prog
       (network (ClientCall POST (post_endpoint lib collection asset_name params presigned)
          (if \<not> presigned then Some data else None)))
       (\<lambda>response.
          bind_prog (get_content lib response None True False True False True)
            (\<lambda>content.
               case headers response (str_of ''Location'') of
                 None \<Rightarrow>
                   bind_prog (outcome_prog (subscript content (str_of ''id'')))
                     (\<lambda>created. return_prog content)
               | Some location_header \<Rightarrow>
                   bind_prog (outcome_prog (encode_data data))
                     (\<lambda>encoded.
                        bind_prog (network (RequestsPut location_header (strip encoded) verify))
                          (\<lambda>put_response.
                             bind_prog
                               (if wait then
                                  bind_prog (outcome_prog (subscript content (str_of ''id'')))
                                    (\<lambda>asset_id.
                                       bind_prog (asset_polling lib collection asset_id)
                                         (\<lambda>status. return_prog ()))
                                else return_prog ())
                               (\<lambda>waited.
                                  bind_prog (outcome_prog (subscript content (str_of ''id'')))
                                    (\<lambda>asset_id. asset_get lib collection asset_id False))))))"

definition asset_post ::
  "pylib \<Rightarrow> str \<Rightarrow> str \<Rightarrow> json \<Rightarrow> (str \<times> json) list option \<Rightarrow> bool \<Rightarrow> bool \<Rightarrow> bool
    \<Rightarrow> content_value prog" where
  "asset_post lib collection asset_name data params presigned wait verify =
     exception_handler
       (retry 10 (asset_post_body lib collection asset_name data params presigned wait verify))"

section \<open>Sample data\<close>

text \<open>
  Concrete inputs for the examples below: the CSV text of the specification, a stored zip
  archive holding it as its one entry \<^verbatim>\<open>report.csv\<close> (126 bytes, as \<^verbatim>\<open>zipfile\<close> writes it),
  asset records and a library whose JSON parser and archive reader know exactly these
  documents. \<open>sample_urlencode\<close> agrees with \<^verbatim>\<open>urlencode\<close> on names made of unreserved
  characters.
\<close>

definition csv_text :: bytes where
  "csv_text = ''a,b\<newline>1,2\<newline>''"

definition latin1_csv :: bytes where
  \<comment> \<open>\<^verbatim>\<open>"caf\xe9,1\n"\<close>: a CSV line in Latin-1, which is not valid UTF-8\<close>
  "latin1_csv = ''caf'' @ [CHR 0xE9] @ '',1\<newline>''"

definition sample_archive :: bytes where
  "sample_archive =
     [CHR 0x50, CHR 0x4B, CHR 0x03, CHR 0x04, CHR 0x14, CHR 0x00, CHR 0x00, CHR 0x00, CHR 0x00,
      CHR 0x00, CHR 0x00, CHR 0x00, CHR 0x21, CHR 0x00, CHR 0x7B, CHR 0x07, CHR 0x97, CHR 0x0A,
      CHR 0x08, CHR 0x00, CHR 0x00, CHR 0x00, CHR 0x08, CHR 0x00, CHR 0x00, CHR 0x00, CHR 0x0A,
      CHR 0x00, CHR 0x00, CHR 0x00, CHR 0x72, CHR 0x65, CHR 0x70, CHR 0x6F, CHR 0x72, CHR 0x74,
      CHR 0x2E, CHR 0x63, CHR 0x73, CHR 0x76, CHR 0x61, CHR 0x2C, CHR 0x62, CHR 0x0A, CHR 0x31,
      CHR 0x2C, CHR 0x32, CHR 0x0A, CHR 0x50, CHR 0x4B, CHR 0x01, CHR 0x02, CHR 0x14, CHR 0x03,
      CHR 0x14, CHR 0x00, CHR 0x00, CHR 0x00, CHR 0x00, CHR 0x00, CHR 0x00, CHR 0x00, CHR 0x21,
      CHR 0x00, CHR 0x7B, CHR 0x07, CHR 0x97, CHR 0x0A, CHR 0x08, CHR 0x00, CHR 0x00, CHR 0x00,
      CHR 0x08, CHR 0x00, CHR 0x00, CHR 0x00, CHR 0x0A, CHR 0x00, CHR 0x00, CHR 0x00, CHR 0x00,
      CHR 0x00, CHR 0x00, CHR 0x00, CHR 0x00, CHR 0x00, CHR 0x00, CHR 0x00, CHR 0x80, CHR 0x01,
      CHR 0x00, CHR 0x00, CHR 0x00, CHR 0x00, CHR 0x72, CHR 0x65, CHR 0x70, CHR 0x6F, CHR 0x72,
      CHR 0x74, CHR 0x2E, CHR 0x63, CHR 0x73, CHR 0x76, CHR 0x50, CHR 0x4B, CHR 0x05, CHR 0x06,
      CHR 0x00, CHR 0x00, CHR 0x00, CHR 0x00, CHR 0x01, CHR 0x00, CHR 0x01, CHR 0x00, CHR 0x38,
      CHR 0x00, CHR 0x00, CHR 0x00, CHR 0x30, CHR 0x00, CHR 0x00, CHR 0x00, CHR 0x00, CHR 0x00]"

definition asset_doc :: "string \<Rightarrow> bytes" where
  \<open>asset_doc st = ''{"id": "a1", "status": "'' @ st @ ''"}''\<close>

definition asset_record :: "string \<Rightarrow> json" where
  "asset_record st =
     JObject [(str_of ''id'', JString (str_of ''a1'')), (str_of ''status'', JString (str_of st))]"

definition listing_doc :: bytes where
  \<open>listing_doc = ''{"count": 2, "total": 10, "content": ["A", "B"]}''\<close>

definition listing :: json where
  "listing =
     JObject [(str_of ''count'', JInt 2), (str_of ''total'', JInt 10),
              (str_of ''content'', JArray [JString (str_of ''A''), JString (str_of ''B'')])]"

definition array_doc :: bytes where
  \<open>array_doc = ''["A", "B"]''\<close>

fun sample_urlencode :: "(str \<times> json) list \<Rightarrow> str" where
  "sample_urlencode [] = []"
| "sample_urlencode [(k, v)] = k @ str_of ''='' @ (case v of JString s \<Rightarrow> s | _ \<Rightarrow> str_of ''?'')"
| "sample_urlencode ((k, v) # kvs) =
     k @ str_of ''='' @ (case v of JString s \<Rightarrow> s | _ \<Rightarrow> str_of ''?'') @ str_of ''&''
       @ sample_urlencode kvs"

definition sample_lib :: pylib where
  "sample_lib =
     \<lparr>json_loads = map_of
        [(asset_doc ''uploading'', asset_record ''uploading''),
         (asset_doc ''processing'', asset_record ''processing''),
         (asset_doc ''ready'', asset_record ''ready''),
         (listing_doc, listing),
         (array_doc, JArray [JString (str_of ''A''), JString (str_of ''B'')])],
      zip_open = map_of [(sample_archive, [(str_of ''report.csv'', Some csv_text)])],
      py_repr = (\<lambda>v. str_of ''?''),
      urlencode = sample_urlencode\<rparr>"

definition respond :: "bytes \<Rightarrow> response" where
  "respond b = \<lparr>status_code = 200, headers = Map.empty, content = b\<rparr>"

text \<open>Servers: an asset that is uploading at the first status check, processing at the
  second and ready from the third on; and the same asset created by a POST that is
  answered with a Location to upload to.\<close>

definition upload_server :: "nat \<Rightarrow> event \<Rightarrow> net_error + response" where
  "upload_server k e =
     Inr (respond (asset_doc
       (if k = 0 then ''uploading'' else if k = 1 then ''processing'' else ''ready'')))"

definition create_server :: "nat \<Rightarrow> event \<Rightarrow> net_error + response" where
  "create_server k e =
     (if k = 0 then
        Inr \<lparr>status_code = 200, headers = [str_of ''Location'' \<mapsto> str_of ''https://s/up''],
             content = asset_doc ''uploading''\<rparr>
      else if k = 1 then Inr (respond [])
      else upload_server (k - 2) e)"

section \<open>Properties of the retry decorator\<close>

lemma invocations_record_event [simp]:
  "invocations (record_event e w) = invocations w + (if e = Invoked then 1 else 0)"
  by (simp add: invocations_def record_event_def)

lemma invocations_sleep [simp]: "invocations (sleep d w) = invocations w"
  by (simp add: sleep_def)

lemma trace_record_event [simp]: "trace (record_event e w) = trace w @ [e]"
  by (simp add: record_event_def)

lemma trace_sleep [simp]: "trace (sleep d w) = trace w @ [Slept d]"
  by (simp add: sleep_def)

lemma net_record_event [simp]: "net (record_event e w) = net w"
  by (simp add: record_event_def)

lemma net_sleep [simp]: "net (sleep d w) = net w"
  by (simp add: sleep_def)

lemma sleep_record_trace:
  "sleep d (record_event e w) = w\<lparr>trace := trace w @ [e, Slept d]\<rparr>"
  by (simp add: sleep_def record_event_def)

lemma map_upt_shift: "map f [0..<Suc m] = f 0 # map (\<lambda>i. f (Suc i)) [0..<m]"
proof -
  have "[0..<Suc m] = 0 # map Suc [0..<m]"
    by (simp add: upt_conv_Cons map_Suc_upt del: upt_Suc)
  then show ?thesis
    by (simp add: comp_def del: upt_Suc)
qed

lemma failures_shape:
  "failures ev d m = concat (map (\<lambda>i. [ev, Slept (d * 2 ^ i)]) [0..<m])"
proof (induction m arbitrary: d)
  case 0
  show ?case by simp
next
  case (Suc m)
  have "map (\<lambda>i. [ev, Slept (d * 2 ^ i)]) [0..<Suc m]
      = [ev, Slept d] # map (\<lambda>i. [ev, Slept (d * 2 * 2 ^ i)]) [0..<m]"
    by (simp add: map_upt_shift del: upt_Suc)
  with Suc show ?case by (simp del: upt_Suc)
qed

lemma count_failures:
  "length (filter P (failures ev d m)) = (if P ev then m else 0) + (if P (Slept d) then m else 0)"
  if "\<And>x y. P (Slept x) = P (Slept y)"
proof (induction m arbitrary: d)
  case 0
  show ?case by simp
next
  case (Suc m)
  have "P (Slept (d * 2)) = P (Slept d)" by (rule that)
  with Suc show ?case by simp
qed

lemma delays_failures:
  "concat (map slept (failures ev d m)) = map (\<lambda>i. d * 2 ^ i) [0..<m]" if "slept ev = []"
proof (induction m arbitrary: d)
  case 0
  show ?case by simp
next
  case (Suc m)
  have "map (\<lambda>i. d * 2 ^ i) [0..<Suc m] = d # map (\<lambda>i. d * 2 * 2 ^ i) [0..<m]"
    by (simp add: map_upt_shift del: upt_Suc)
  with Suc that show ?case by (simp del: upt_Suc)
qed

text \<open>The loop around a function that records one event per call and whose outcome
  \<open>g\<close> depends on the world it is called in: after \<open>m\<close> connection errors the call ends as
  \<open>r\<close>. Unless \<open>r\<close> is itself a connection error, it comes back whether the call was
  guarded or the final one; a connection error comes back only from the final, unguarded
  call.\<close>

lemma retry_loop_recorded:
  assumes func: "\<And>w. func w = Some (g w, record_event ev w)"
    and "a + m \<le> ntimes"
    and "\<forall>i<m. g (w\<lparr>trace := trace w @ failures ev d i\<rparr>) = Raise (Net ConnectionError)"
    and "g (w\<lparr>trace := trace w @ failures ev d m\<rparr>) = r"
    and "(\<forall>e. r = Raise e \<longrightarrow> \<not> is_connection_error e) \<or> a + m = ntimes"
  shows "retry_loop ntimes func d a w
      = Some (r, w\<lparr>trace := trace w @ failures ev d m @ [ev]\<rparr>)"
  using assms(2-)
proof (induction m arbitrary: a d w)
  case 0
  from 0 have r: "g w = r" by simp
  show ?case
  proof (cases "a < ntimes")
    case True
    with 0 have nc: "\<forall>e. r = Raise e \<longrightarrow> \<not> is_connection_error e" by simp
    show ?thesis
    proof (cases r)
      case (Return v)
      with True r show ?thesis
        by (simp add: func record_event_def)
    next
      case (Raise e)
      with nc have "\<not> is_connection_error e" by simp
      with True r Raise show ?thesis
        by (simp add: func record_event_def)
    qed
  next
    case False
    with r show ?thesis
      by (simp add: func record_event_def)
  qed
next
  case (Suc m)
  from Suc.prems have lt: "a < ntimes" by simp
  have "g (w\<lparr>trace := trace w @ failures ev d 0\<rparr>) = Raise (Net ConnectionError)"
    using Suc.prems(2) by blast
  then have first: "g w = Raise (Net ConnectionError)" by simp
  let ?w = "sleep d (record_event ev w)"
  have w: "?w = w\<lparr>trace := trace w @ [ev, Slept d]\<rparr>"
    by (rule sleep_record_trace)
  have ext: "?w\<lparr>trace := trace ?w @ failures ev (d * 2) i\<rparr>
      = w\<lparr>trace := trace w @ failures ev d (Suc i)\<rparr>" for i
    by (simp add: w)
  have rest: "\<forall>i<m. g (?w\<lparr>trace := trace ?w @ failures ev (d * 2) i\<rparr>)
      = Raise (Net ConnectionError)"
  proof (intro allI impI)
    fix i assume "i < m"
    then have "Suc i < Suc m" by simp
    with Suc.prems(2) have "g (w\<lparr>trace := trace w @ failures ev d (Suc i)\<rparr>)
        = Raise (Net ConnectionError)"
      by blast
    then show "g (?w\<lparr>trace := trace ?w @ failures ev (d * 2) i\<rparr>) = Raise (Net ConnectionError)"
      by (simp only: ext)
  qed
  have last: "g (?w\<lparr>trace := trace ?w @ failures ev (d * 2) m\<rparr>) = r"
    using Suc.prems(3) by (simp only: ext)
  have le: "(a + 1) + m \<le> ntimes" using Suc.prems(1) by simp
  have fin: "(\<forall>e. r = Raise e \<longrightarrow> \<not> is_connection_error e) \<or> (a + 1) + m = ntimes"
    using Suc.prems(4) by simp
  have step: "retry_loop ntimes func d a w = retry_loop ntimes func (d * 2) (a + 1) ?w"
    using lt first by (simp add: func)
  have "retry_loop ntimes func (d * 2) (a + 1) ?w
      = Some (r, ?w\<lparr>trace := trace ?w @ failures ev (d * 2) m @ [ev]\<rparr>)"
    by (rule Suc.IH [OF le rest last fin])
  with step show ?case
    by (simp add: w)
qed

lemma invocations_failures [simp]:
  "invocations (w\<lparr>trace := trace w @ failures Invoked d m\<rparr>) = invocations w + m"
  by (simp add: invocations_def count_failures)

lemma retry_loop_script:
  assumes "a + m \<le> ntimes"
    and "\<forall>i<m. out (invocations w + i) = Raise (Net ConnectionError)"
    and "out (invocations w + m) = r"
    and "(\<forall>e. r = Raise e \<longrightarrow> \<not> is_connection_error e) \<or> a + m = ntimes"
  shows "retry_loop ntimes (operation out) d a w
      = Some (r, w\<lparr>trace := trace w @ failures Invoked d m @ [Invoked]\<rparr>)"
proof (rule retry_loop_recorded [where g = "\<lambda>w. out (invocations w)"])
  show "operation out w = Some (out (invocations w), record_event Invoked w)" for w
    by (simp add: operation_def)
  show "a + m \<le> ntimes" by (rule assms(1))
  show "\<forall>i<m. out (invocations (w\<lparr>trace := trace w @ failures Invoked d i\<rparr>))
      = Raise (Net ConnectionError)"
    using assms(2) by simp
  show "out (invocations (w\<lparr>trace := trace w @ failures Invoked d m\<rparr>)) = r"
    using assms(3) by simp
  show "(\<forall>e. r = Raise e \<longrightarrow> \<not> is_connection_error e) \<or> a + m = ntimes"
    by (rule assms(4))
qed

lemma net_calls_record_event [simp]:
  "net_calls (record_event e w) = net_calls w + (if is_network e then 1 else 0)"
  by (simp add: net_calls_def record_event_def)

lemma net_calls_sleep [simp]: "net_calls (sleep d w) = net_calls w"
  by (simp add: sleep_def)

lemma client_calls_record_event [simp]:
  "client_calls (record_event e w) = client_calls w + (if is_client_call e then 1 else 0)"
  by (simp add: client_calls_def record_event_def)

lemma client_calls_sleep [simp]: "client_calls (sleep d w) = client_calls w"
  by (simp add: sleep_def)

lemma net_calls_failures [simp]:
  "net_calls (w\<lparr>trace := trace w @ failures ev d m\<rparr>)
    = net_calls w + (if is_network ev then m else 0)"
  by (simp add: net_calls_def count_failures)

lemma retry_loop_done:
  assumes "func w = Some (res, w')" and "\<forall>e. res = Raise e \<longrightarrow> \<not> is_connection_error e"
  shows "retry_loop n func d a w = Some (res, w')"
  using assms by (cases res) auto

lemma retry_loop_rel_aux:
  assumes slp: "\<And>d w. R w (sleep d w)"
    and trans: "\<And>x y z. R x y \<Longrightarrow> R y z \<Longrightarrow> R x z"
  shows "retry_loop n func d a w = Some (r, w') \<Longrightarrow> \<forall>w r w'. func w = Some (r, w') \<longrightarrow> R w w'
    \<Longrightarrow> R w w'"
proof (induction n func d a w rule: retry_loop.induct)
  case (1 ntimes func delay attempt w)
  note run = "1.prems"(1) and func = "1.prems"(2)
  show ?case
  proof (cases "attempt < ntimes")
    case False
    with run have "func w = Some (r, w')" by simp
    with func show ?thesis by blast
  next
    case True
    show ?thesis
    proof (cases "func w")
      case None
      with True run show ?thesis by simp
    next
      case (Some p)
      obtain res w1 where p: "p = (res, w1)" by (cases p)
      have step: "R w w1" using Some p func by blast
      show ?thesis
      proof (cases res)
        case (Return v)
        with True Some p run have "w' = w1" by simp
        with step show ?thesis by simp
      next
        case (Raise e)
        show ?thesis
        proof (cases "is_connection_error e")
          case False
          with True Some p Raise run have "w' = w1" by simp
          with step show ?thesis by simp
        next
          case conn: True
          with True Some p Raise run
          have again: "retry_loop ntimes func (delay * 2) (attempt + 1) (sleep delay w1)
              = Some (r, w')"
            by simp
          have "R (sleep delay w1) w'"
            using "1.IH" [OF True Some p [symmetric] Raise conn again func] .
          with step slp [of w1 delay] show ?thesis by (blast intro: trans)
        qed
      qed
    qed
  qed
qed

lemma retry_loop_rel:
  assumes "\<And>w r w'. func w = Some (r, w') \<Longrightarrow> R w w'"
    and "\<And>d w. R w (sleep d w)"
    and "\<And>x y z. R x y \<Longrightarrow> R y z \<Longrightarrow> R x z"
    and "retry_loop n func d a w = Some (r, w')"
  shows "R w w'"
proof -
  have "\<forall>w r w'. func w = Some (r, w') \<longrightarrow> R w w'"
    using assms(1) by blast
  show ?thesis
    apply (rule retry_loop_rel_aux [where R = R and func = func])
       apply (rule assms(2))
      apply (erule assms(3), assumption)
     apply (rule assms(4))
    apply (rule \<open>\<forall>w r w'. func w = Some (r, w') \<longrightarrow> R w w'\<close>)
    done
qed

text \<open>
  Claim C1. Let the operation raise the connection error on each of its first \<open>N - 1\<close>
  invocations and return \<open>v\<close> on the \<open>N\<close>-th, with \<open>1 \<le> N \<le> 10\<close>. Then the operation wrapped
  by \<^verbatim>\<open>retry(times=10)\<close> returns \<open>v\<close>; it has invoked the operation exactly \<open>N\<close> times, and it
  has slept once between consecutive invocations, for 1, 2, 4, ..., \<open>2 ^ (N - 2)\<close> time
  units, in this order.
\<close>

theorem retry_returns_after_N_invocations:
  assumes "1 \<le> N" and "N \<le> 10"
    and "\<forall>i<N - 1. out (invocations w + i) = Raise (Net ConnectionError)"
    and "out (invocations w + (N - 1)) = Return v"
  shows "let w' = w\<lparr>trace := trace w
                @ concat (map (\<lambda>i. [Invoked, Slept (2 ^ i)]) [0..<N - 1]) @ [Invoked]\<rparr>
         in retry 10 (operation out) w = Some (Return v, w')
          \<and> invocations w' = invocations w + N
          \<and> delays w' = delays w @ map (\<lambda>i. 2 ^ i) [0..<N - 1]"
proof -
  have le: "0 + (N - 1) \<le> (10::nat)" using assms(2) by simp
  have ok: "(\<forall>e. Return v = Raise e \<longrightarrow> \<not> is_connection_error e) \<or> 0 + (N - 1) = (10::nat)"
    by simp
  let ?w' = "w\<lparr>trace := trace w @ failures Invoked 1 (N - 1) @ [Invoked]\<rparr>"
  have run: "retry 10 (operation out) w = Some (Return v, ?w')"
    unfolding retry_def by (rule retry_loop_script [OF le assms(3) assms(4) ok])
  have inv: "invocations ?w' = invocations w + N"
    using assms(1) by (simp add: invocations_def count_failures)
  have del: "delays ?w' = delays w @ map (\<lambda>i. 2 ^ i) [0..<N - 1]"
    by (simp add: delays_def delays_failures)
  from run inv del show ?thesis
    by (simp add: failures_shape Let_def)
qed

theorem retry_returns_after_N_invocations_witness:
  "retry 10 (operation (\<lambda>i. if i < 2 then Raise (Net ConnectionError) else Return (7::nat)))
      \<lparr>net = (\<lambda>k e. Inl ConnectionError), trace = []\<rparr>
   = Some (Return 7, \<lparr>net = (\<lambda>k e. Inl ConnectionError),
                      trace = [Invoked, Slept 1, Invoked, Slept 2, Invoked]\<rparr>)
   \<and> invocations \<lparr>net = (\<lambda>k e. Inl ConnectionError),
                      trace = [Invoked, Slept 1, Invoked, Slept 2, Invoked]\<rparr> = 3
   \<and> delays \<lparr>net = (\<lambda>k e. Inl ConnectionError),
                      trace = [Invoked, Slept 1, Invoked, Slept 2, Invoked]\<rparr> = [1, 2]"
  using retry_returns_after_N_invocations
    [of 3 "\<lambda>i. if i < 2 then Raise (Net ConnectionError) else Return (7::nat)"
        "\<lparr>net = (\<lambda>k e. Inl ConnectionError), trace = []\<rparr>" 7]
  by (simp add: invocations_def delays_def Let_def upt_conv_Cons)

text \<open>
  Claim C5. An error of any other kind than the connection error, raised by an
  invocation that all earlier invocations led to by connection errors, comes back to
  the caller at once: the trace ends with that invocation, so nothing is invoked and
  nothing sleeps after it. When all 10 guarded invocations raise the connection error,
  the wrapper invokes the operation once more, the 11th time, and the outcome of that
  invocation, value or error of any kind, is the outcome of the call.
\<close>

theorem retry_propagates:
  "(\<forall>k e. k \<le> 10 \<and> (\<forall>i<k. out (invocations w + i) = Raise (Net ConnectionError))
        \<and> out (invocations w + k) = Raise e \<and> \<not> is_connection_error e
      \<longrightarrow> retry 10 (operation out) w
          = Some (Raise e, w\<lparr>trace := trace w
                @ concat (map (\<lambda>i. [Invoked, Slept (2 ^ i)]) [0..<k]) @ [Invoked]\<rparr>))
   \<and> ((\<forall>i<10. out (invocations w + i) = Raise (Net ConnectionError))
      \<longrightarrow> retry 10 (operation out) w
          = Some (out (invocations w + 10), w\<lparr>trace := trace w
                @ concat (map (\<lambda>i. [Invoked, Slept (2 ^ i)]) [0..<10]) @ [Invoked]\<rparr>)
        \<and> invocations (w\<lparr>trace := trace w
                @ concat (map (\<lambda>i. [Invoked, Slept (2 ^ i)]) [0..<10]) @ [Invoked]\<rparr>)
          = invocations w + 11)"
proof (intro conjI allI impI)
  fix k e
  assume h: "k \<le> 10 \<and> (\<forall>i<k. out (invocations w + i) = Raise (Net ConnectionError))
        \<and> out (invocations w + k) = Raise e \<and> \<not> is_connection_error e"
  then have le: "0 + k \<le> (10::nat)" by simp
  from h have fails: "\<forall>i<k. out (invocations w + i) = Raise (Net ConnectionError)" by simp
  from h have last: "out (invocations w + k) = Raise e" by simp
  from h have fin: "(\<forall>e'. Raise e = Raise e' \<longrightarrow> \<not> is_connection_error e') \<or> 0 + k = (10::nat)"
    by simp
  have "retry 10 (operation out) w = Some (Raise e, w\<lparr>trace := trace w @ failures Invoked 1 k @ [Invoked]\<rparr>)"
    unfolding retry_def by (rule retry_loop_script [OF le fails last fin])
  then show "retry 10 (operation out) w
      = Some (Raise e, w\<lparr>trace := trace w
            @ concat (map (\<lambda>i. [Invoked, Slept (2 ^ i)]) [0..<k]) @ [Invoked]\<rparr>)"
    by (simp add: failures_shape)
next
  assume fails: "\<forall>i<10. out (invocations w + i) = Raise (Net ConnectionError)"
  have le: "0 + 10 \<le> (10::nat)" by simp
  have fin: "(\<forall>e. out (invocations w + 10) = Raise e \<longrightarrow> \<not> is_connection_error e)
      \<or> 0 + 10 = (10::nat)"
    by simp
  have "retry 10 (operation out) w
      = Some (out (invocations w + 10), w\<lparr>trace := trace w @ failures Invoked 1 10 @ [Invoked]\<rparr>)"
    unfolding retry_def by (rule retry_loop_script [OF le fails refl fin])
  then show "retry 10 (operation out) w
      = Some (out (invocations w + 10), w\<lparr>trace := trace w
            @ concat (map (\<lambda>i. [Invoked, Slept (2 ^ i)]) [0..<10]) @ [Invoked]\<rparr>)"
    by (simp only: failures_shape mult_1)
next
  assume "\<forall>i<10. out (invocations w + i) = Raise (Net ConnectionError)"
  have "invocations (w\<lparr>trace := trace w @ failures Invoked 1 10 @ [Invoked]\<rparr>) = invocations w + 11"
    by (simp add: invocations_def count_failures)
  then show "invocations (w\<lparr>trace := trace w
        @ concat (map (\<lambda>i. [Invoked, Slept (2 ^ i)]) [0..<10]) @ [Invoked]\<rparr>)
      = invocations w + 11"
    by (simp only: failures_shape mult_1)
qed

theorem retry_propagates_witness:
  "retry 10 (operation (\<lambda>i. if i < 2 then Raise (Net ConnectionError)
                             else (Raise (KeyError (str_of ''id'')) :: nat outcome)))
      \<lparr>net = (\<lambda>k e. Inl ConnectionError), trace = []\<rparr>
   = Some (Raise (KeyError (str_of ''id'')), \<lparr>net = (\<lambda>k e. Inl ConnectionError),
                      trace = [Invoked, Slept 1, Invoked, Slept 2, Invoked]\<rparr>)
   \<and> retry 10 (operation (\<lambda>i. if i < 10 then Raise (Net ConnectionError) else Return (7::nat)))
      \<lparr>net = (\<lambda>k e. Inl ConnectionError), trace = []\<rparr>
   = Some (Return 7, \<lparr>net = (\<lambda>k e. Inl ConnectionError),
        trace = [Invoked, Slept 1, Invoked, Slept 2, Invoked, Slept 4, Invoked, Slept 8,
                 Invoked, Slept 16, Invoked, Slept 32, Invoked, Slept 64, Invoked, Slept 128,
                 Invoked, Slept 256, Invoked, Slept 512, Invoked]\<rparr>)
   \<and> retry 10 (operation (\<lambda>i. (Raise (Net ConnectionError) :: nat outcome)))
      \<lparr>net = (\<lambda>k e. Inl ConnectionError), trace = []\<rparr>
   = Some (Raise (Net ConnectionError), \<lparr>net = (\<lambda>k e. Inl ConnectionError),
        trace = [Invoked, Slept 1, Invoked, Slept 2, Invoked, Slept 4, Invoked, Slept 8,
                 Invoked, Slept 16, Invoked, Slept 32, Invoked, Slept 64, Invoked, Slept 128,
                 Invoked, Slept 256, Invoked, Slept 512, Invoked]\<rparr>)"
proof -
  let ?w = "\<lparr>net = (\<lambda>k e. Inl ConnectionError), trace = []\<rparr>"
  have up: "[0..<10] = [0, 1, 2, 3, 4, 5, 6, 7, 8, 9::nat]" "[0..<2] = [0, 1::nat]"
    by (simp_all add: upt_conv_Cons)
  have a: "retry 10 (operation (\<lambda>i. if i < 2 then Raise (Net ConnectionError)
                             else (Raise (KeyError (str_of ''id'')) :: nat outcome))) ?w
      = Some (Raise (KeyError (str_of ''id'')), \<lparr>net = (\<lambda>k e. Inl ConnectionError),
                      trace = [Invoked, Slept 1, Invoked, Slept 2, Invoked]\<rparr>)"
    using retry_propagates [of "\<lambda>i. if i < 2 then Raise (Net ConnectionError)
                             else (Raise (KeyError (str_of ''id'')) :: nat outcome)" ?w,
        THEN conjunct1, rule_format, of 2 "KeyError (str_of ''id'')"]
    by (simp add: invocations_def up)
  have b: "retry 10 (operation (\<lambda>i. if i < 10 then Raise (Net ConnectionError) else Return (7::nat))) ?w
      = Some (Return 7, \<lparr>net = (\<lambda>k e. Inl ConnectionError),
        trace = [Invoked, Slept 1, Invoked, Slept 2, Invoked, Slept 4, Invoked, Slept 8,
                 Invoked, Slept 16, Invoked, Slept 32, Invoked, Slept 64, Invoked, Slept 128,
                 Invoked, Slept 256, Invoked, Slept 512, Invoked]\<rparr>)"
    using retry_propagates [of "\<lambda>i. if i < 10 then Raise (Net ConnectionError) else Return (7::nat)" ?w,
        THEN conjunct2]
    by (simp add: invocations_def up)
  have c: "retry 10 (operation (\<lambda>i. (Raise (Net ConnectionError) :: nat outcome))) ?w
      = Some (Raise (Net ConnectionError), \<lparr>net = (\<lambda>k e. Inl ConnectionError),
        trace = [Invoked, Slept 1, Invoked, Slept 2, Invoked, Slept 4, Invoked, Slept 8,
                 Invoked, Slept 16, Invoked, Slept 32, Invoked, Slept 64, Invoked, Slept 128,
                 Invoked, Slept 256, Invoked, Slept 512, Invoked]\<rparr>)"
    using retry_propagates [of "\<lambda>i. (Raise (Net ConnectionError) :: nat outcome)" ?w,
        THEN conjunct2]
    by (simp add: invocations_def up)
  from a b c show ?thesis by simp
qed

section \<open>Properties of the content decoder\<close>

lemma decode_response_cases:
  "(\<exists>c. decode_response lib load csv unzip r = Return c)
    \<or> decode_response lib load csv unzip r = Raise UnicodeDecodeError"
  by (simp add: decode_response_def split: option.split)

lemma decode_response_not_connection:
  "decode_response lib load csv unzip r = Raise e \<Longrightarrow> \<not> is_connection_error e"
  using decode_response_cases [of lib load csv unzip r] by auto

lemma follow_location_direct:
  assumes "\<not> gfl \<or> headers r (str_of ''Location'') = None
      \<or> headers r (str_of ''Location'') = Some []"
  shows "follow_location r gfl verify w = Some (Return r, w)"
  using assms by (auto simp: follow_location_def return_prog_def)

lemma follow_location_fetch:
  assumes "gfl" and "headers r (str_of ''Location'') = Some loc" and "loc \<noteq> []"
  shows "follow_location r gfl verify = network (RequestsGet loc verify)"
  using assms by (simp add: follow_location_def)

lemma get_content_reject:
  assumes "status_code r \<notin> set (accepted acc)"
  shows "get_content lib r acc load gfl verify csv unzip w = Some (Raise (UnexpectedStatus r), w)"
proof -
  have "get_content_body lib r acc load gfl verify csv unzip w
      = Some (Raise (UnexpectedStatus r), w)"
    using assms by (simp add: get_content_body_def raise_prog_def)
  then show ?thesis
    unfolding get_content_def exception_handler_def retry_def
    by (rule retry_loop_done) simp
qed

lemma get_content_direct:
  assumes "status_code r \<in> set (accepted acc)"
    and "\<not> gfl \<or> headers r (str_of ''Location'') = None
      \<or> headers r (str_of ''Location'') = Some []"
  shows "get_content lib r acc load gfl verify csv unzip w
      = Some (decode_response lib load csv unzip r, w)"
proof -
  have "get_content_body lib r acc load gfl verify csv unzip w
      = Some (decode_response lib load csv unzip r, w)"
    using assms(1) follow_location_direct [OF assms(2)]
    by (simp add: get_content_body_def bind_prog_def outcome_prog_def)
  then show ?thesis
    unfolding get_content_def exception_handler_def retry_def
    by (rule retry_loop_done) (simp add: decode_response_not_connection)
qed

lemma get_content_body_fetch:
  assumes "status_code r \<in> set (accepted acc)"
    and "gfl" and "headers r (str_of ''Location'') = Some loc" and "loc \<noteq> []"
  shows "get_content_body lib r acc load gfl verify csv unzip w
      = Some (fetched lib load csv unzip (net w (net_calls w) (RequestsGet loc verify)),
              record_event (RequestsGet loc verify) w)"
  using assms(1) follow_location_fetch [OF assms(2-4)]
  by (simp add: get_content_body_def bind_prog_def outcome_prog_def network_def fetched_def
      split: sum.split)

lemma get_content_fetch:
  assumes "status_code r \<in> set (accepted acc)"
    and "gfl" and "headers r (str_of ''Location'') = Some loc" and "loc \<noteq> []"
    and "m \<le> 10"
    and "\<forall>i<m. net w (net_calls w + i) (RequestsGet loc verify) = Inl ConnectionError"
    and "net w (net_calls w + m) (RequestsGet loc verify) = ans"
    and "ans \<noteq> Inl ConnectionError \<or> m = 10"
  shows "get_content lib r acc load gfl verify csv unzip w
      = Some (fetched lib load csv unzip ans,
              w\<lparr>trace := trace w @ failures (RequestsGet loc verify) 1 m
                  @ [RequestsGet loc verify]\<rparr>)"
  unfolding get_content_def exception_handler_def retry_def
proof (rule retry_loop_recorded
    [where g = "\<lambda>w. fetched lib load csv unzip (net w (net_calls w) (RequestsGet loc verify))"])
  show "get_content_body lib r acc load gfl verify csv unzip w
      = Some (fetched lib load csv unzip (net w (net_calls w) (RequestsGet loc verify)),
              record_event (RequestsGet loc verify) w)" for w
    by (rule get_content_body_fetch [OF assms(1-4)])
  show "0 + m \<le> (10::nat)" using assms(5) by simp
  show "\<forall>i<m. fetched lib load csv unzip
        (net (w\<lparr>trace := trace w @ failures (RequestsGet loc verify) 1 i\<rparr>)
          (net_calls (w\<lparr>trace := trace w @ failures (RequestsGet loc verify) 1 i\<rparr>))
          (RequestsGet loc verify))
      = Raise (Net ConnectionError)"
    using assms(6) by (simp add: fetched_def)
  show "fetched lib load csv unzip
        (net (w\<lparr>trace := trace w @ failures (RequestsGet loc verify) 1 m\<rparr>)
          (net_calls (w\<lparr>trace := trace w @ failures (RequestsGet loc verify) 1 m\<rparr>))
          (RequestsGet loc verify))
      = fetched lib load csv unzip ans"
    using assms(7) by simp
  show "(\<forall>e. fetched lib load csv unzip ans = Raise e \<longrightarrow> \<not> is_connection_error e)
      \<or> 0 + m = (10::nat)"
  proof (cases "m = 10")
    case True
    then show ?thesis by simp
  next
    case False
    with assms(8) have ans: "ans \<noteq> Inl ConnectionError" by simp
    have "\<not> is_connection_error e" if "fetched lib load csv unzip ans = Raise e" for e
    proof (cases ans)
      case (Inl err)
      with ans have "err \<noteq> ConnectionError" by simp
      with that Inl show ?thesis
        by (cases err) (auto simp: fetched_def)
    next
      case (Inr r2)
      with that show ?thesis
        by (simp add: fetched_def decode_response_not_connection)
    qed
    then show ?thesis by blast
  qed
qed

subsection \<open>Evaluating the library functions\<close>

lemma str_of_simps: "str_of [] = []" "str_of (c # cs) = of_char c # str_of cs"
  by (simp_all add: str_of_def)

lemma str_of_eq_iff [simp]: "str_of a = str_of b \<longleftrightarrow> a = b"
proof -
  have "inj (of_char :: char \<Rightarrow> nat)"
    by (rule injI) simp
  then show ?thesis
    by (simp add: str_of_def inj_map_eq_map)
qed

lemma str_of_empty_iff [simp]: "str_of a = [] \<longleftrightarrow> a = []" "[] = str_of a \<longleftrightarrow> a = []"
  by (auto simp: str_of_def)

lemma splitlines_csv: "splitlines ''a,b\<newline>1,2\<newline>'' = [''a,b'', ''1,2'']"
  by (simp add: splitlines_def)

lemma iterdecode_csv:
  "iterdecode Start [''a,b'', ''1,2''] = Some [str_of ''a,b'', str_of ''1,2'']"
  by (simp add: str_of_simps)

lemma reader_rows_csv:
  "csv_reader [str_of ''a,b'', str_of ''1,2''] (str_of '','')
    = Some [[str_of ''a'', str_of ''b''], [str_of ''1'', str_of ''2'']]"
  by (simp add: csv_reader_def parse_process_char_def start_field_def parse_reset_def
      parse_add_char_def parse_save_field_def is_newline_def quotechar_def field_limit_def
      str_of_simps)

lemma read_csv_text:
  "read_csv (splitlines ''a,b\<newline>1,2\<newline>'') (str_of '','')
    = Some [[str_of ''a'', str_of ''b''], [str_of ''1'', str_of ''2'']]"
  by (simp only: splitlines_csv read_csv_def iterdecode_csv reader_rows_csv option.case)

lemma decode_sample_archive: "decode_utf8 sample_archive = None"
  by (simp add: decode_utf8_def sample_archive_def)

lemma decode_latin1_csv: "decode_utf8 latin1_csv = None"
  by (simp add: decode_utf8_def latin1_csv_def)

lemma read_csv_latin1: "read_csv (splitlines latin1_csv) d = None"
  by (simp add: read_csv_def splitlines_def latin1_csv_def)

subsection \<open>What a call returns\<close>

lemma decode_response_raw [simp]:
  "decode_response lib False csv unzip r = Return (RawBytes (content r))"
  by (simp add: decode_response_def)


text \<open>With a redirect to follow, the call ends at the first answer that is not a
  connection error, or at the eleventh answer.\<close>

lemma get_content_fetch_ex:
  assumes "status_code r \<in> set (accepted acc)"
    and "gfl" and "headers r (str_of ''Location'') = Some loc" and "loc \<noteq> []"
  shows "\<exists>m\<le>10. (\<forall>i<m. net w (net_calls w + i) (RequestsGet loc verify) = Inl ConnectionError)
      \<and> get_content lib r acc load gfl verify csv unzip w
        = Some (fetched lib load csv unzip (net w (net_calls w + m) (RequestsGet loc verify)),
                w\<lparr>trace := trace w @ failures (RequestsGet loc verify) 1 m
                    @ [RequestsGet loc verify]\<rparr>)"
proof -
  define ans where "ans i = net w (net_calls w + i) (RequestsGet loc verify)" for i
  define m where "m = (LEAST i. ans i \<noteq> Inl ConnectionError \<or> i = 10)"
  have ex: "ans 10 \<noteq> Inl ConnectionError \<or> (10::nat) = 10" by simp
  have stop: "ans m \<noteq> Inl ConnectionError \<or> m = 10"
    unfolding m_def by (rule LeastI [of "\<lambda>i. ans i \<noteq> Inl ConnectionError \<or> i = 10", OF ex])
  have le: "m \<le> 10"
    unfolding m_def by (rule Least_le [of "\<lambda>i. ans i \<noteq> Inl ConnectionError \<or> i = 10", OF ex])
  have before: "\<forall>i<m. ans i = Inl ConnectionError"
  proof (intro allI impI)
    fix i assume "i < m"
    then have "\<not> (ans i \<noteq> Inl ConnectionError \<or> i = 10)"
      unfolding m_def by (rule not_less_Least)
    then show "ans i = Inl ConnectionError" by simp
  qed
  have "get_content lib r acc load gfl verify csv unzip w
      = Some (fetched lib load csv unzip (ans m),
              w\<lparr>trace := trace w @ failures (RequestsGet loc verify) 1 m
                  @ [RequestsGet loc verify]\<rparr>)"
    using before stop
    by (intro get_content_fetch [OF assms le]) (simp_all add: ans_def)
  with le before show ?thesis
    unfolding ans_def by blast
qed

text \<open>
  Claim C6, amended. For a response whose status is accepted and with \<open>load = False\<close>:
  when \<open>get_from_location\<close> is not set, or the response has no Location header or an
  empty one, \<^verbatim>\<open>get_content\<close> returns exactly the response's own bytes and calls nothing;
  when \<open>get_from_location\<close> is set and the Location header is not empty, it issues a GET
  of that location, again after each connection error (sleeping 1, 2, 4, ... in
  between, at most ten times), and when that GET is answered by a response it returns
  exactly the bytes of that response. No parser touches the bytes.
\<close>

theorem get_content_raw_bytes:
  assumes "status_code r \<in> set (accepted acc)"
  shows "(\<not> gfl \<or> headers r (str_of ''Location'') = None
          \<or> headers r (str_of ''Location'') = Some []
        \<longrightarrow> get_content lib r acc False gfl verify csv unzip w
            = Some (Return (RawBytes (content r)), w))
      \<and> (\<forall>loc m r2. gfl \<and> headers r (str_of ''Location'') = Some loc \<and> loc \<noteq> [] \<and> m \<le> 10
            \<and> (\<forall>i<m. net w (net_calls w + i) (RequestsGet loc verify) = Inl ConnectionError)
            \<and> net w (net_calls w + m) (RequestsGet loc verify) = Inr r2
        \<longrightarrow> get_content lib r acc False gfl verify csv unzip w
            = Some (Return (RawBytes (content r2)),
                    w\<lparr>trace := trace w
                        @ concat (map (\<lambda>i. [RequestsGet loc verify, Slept (2 ^ i)]) [0..<m])
                        @ [RequestsGet loc verify]\<rparr>))"
proof (intro conjI allI impI)
  assume "\<not> gfl \<or> headers r (str_of ''Location'') = None
      \<or> headers r (str_of ''Location'') = Some []"
  then show "get_content lib r acc False gfl verify csv unzip w
      = Some (Return (RawBytes (content r)), w)"
    using get_content_direct [OF assms, of gfl lib False verify csv unzip w] by simp
next
  fix loc m r2
  assume h: "gfl \<and> headers r (str_of ''Location'') = Some loc \<and> loc \<noteq> [] \<and> m \<le> 10
      \<and> (\<forall>i<m. net w (net_calls w + i) (RequestsGet loc verify) = Inl ConnectionError)
      \<and> net w (net_calls w + m) (RequestsGet loc verify) = Inr r2"
  have "get_content lib r acc False gfl verify csv unzip w
      = Some (fetched lib False csv unzip (Inr r2),
              w\<lparr>trace := trace w @ failures (RequestsGet loc verify) 1 m
                  @ [RequestsGet loc verify]\<rparr>)"
    using h by (intro get_content_fetch [OF assms]) simp_all
  then show "get_content lib r acc False gfl verify csv unzip w
      = Some (Return (RawBytes (content r2)),
              w\<lparr>trace := trace w
                  @ concat (map (\<lambda>i. [RequestsGet loc verify, Slept (2 ^ i)]) [0..<m])
                  @ [RequestsGet loc verify]\<rparr>)"
    by (simp add: fetched_def failures_shape)
qed


lemma accepted_default [simp]: "set (accepted None) = {200, 204}"
  by (auto simp: accepted_def)

text \<open>The theorem at a response without a Location header, and at one whose location
  answers at the second attempt.\<close>

theorem get_content_raw_bytes_witness:
  "get_content sample_lib (respond ''payload'') None False True True False True
      \<lparr>net = (\<lambda>k e. Inl ConnectionError), trace = []\<rparr>
    = Some (Return (RawBytes ''payload''), \<lparr>net = (\<lambda>k e. Inl ConnectionError), trace = []\<rparr>)
   \<and> get_content sample_lib
        \<lparr>status_code = 200, headers = [str_of ''Location'' \<mapsto> str_of ''https://s/f''],
         content = ''pointer''\<rparr>
        None False True True False True
        \<lparr>net = (\<lambda>k e. if k = 0 then Inl ConnectionError else Inr (respond ''payload'')),
         trace = []\<rparr>
    = Some (Return (RawBytes ''payload''),
        \<lparr>net = (\<lambda>k e. if k = 0 then Inl ConnectionError else Inr (respond ''payload'')),
         trace = [RequestsGet (str_of ''https://s/f'') True, Slept 1,
                  RequestsGet (str_of ''https://s/f'') True]\<rparr>)"
proof -
  have a: "get_content sample_lib (respond ''payload'') None False True True False True
      \<lparr>net = (\<lambda>k e. Inl ConnectionError), trace = []\<rparr>
    = Some (Return (RawBytes ''payload''), \<lparr>net = (\<lambda>k e. Inl ConnectionError), trace = []\<rparr>)"
    using get_content_raw_bytes [of "respond ''payload''" None True sample_lib True False True
        "\<lparr>net = (\<lambda>k e. Inl ConnectionError), trace = []\<rparr>", THEN conjunct1]
    by (simp add: respond_def)
  have b: "get_content sample_lib
        \<lparr>status_code = 200, headers = [str_of ''Location'' \<mapsto> str_of ''https://s/f''],
         content = ''pointer''\<rparr>
        None False True True False True
        \<lparr>net = (\<lambda>k e. if k = 0 then Inl ConnectionError else Inr (respond ''payload'')),
         trace = []\<rparr>
    = Some (Return (RawBytes ''payload''),
        \<lparr>net = (\<lambda>k e. if k = 0 then Inl ConnectionError else Inr (respond ''payload'')),
         trace = [RequestsGet (str_of ''https://s/f'') True, Slept 1,
                  RequestsGet (str_of ''https://s/f'') True]\<rparr>)"
    using get_content_raw_bytes [of
        "\<lparr>status_code = 200, headers = [str_of ''Location'' \<mapsto> str_of ''https://s/f''],
          content = ''pointer''\<rparr>" None True sample_lib True False True
        "\<lparr>net = (\<lambda>k e. if k = 0 then Inl ConnectionError else Inr (respond ''payload'')),
          trace = []\<rparr>", THEN conjunct2, rule_format,
        of "str_of ''https://s/f''" 1 "respond ''payload''"]
    by (simp add: respond_def net_calls_def)
  from a b show ?thesis by simp
qed

text \<open>
  Claim C6 as stated fails where the Location header is present and empty: the guard
  \<^verbatim>\<open>if location_header:\<close> is false for the empty string, so no GET is issued (the trace
  stays empty) and the response's own bytes come back, although a GET would have been
  answered with other bytes.
\<close>

theorem get_content_empty_location_counterexample:
  "get_content sample_lib
      \<lparr>status_code = 200, headers = [str_of ''Location'' \<mapsto> []], content = ''own''\<rparr>
      None False True True False True
      \<lparr>net = (\<lambda>k e. Inr (respond ''fetched'')), trace = []\<rparr>
    = Some (Return (RawBytes ''own''), \<lparr>net = (\<lambda>k e. Inr (respond ''fetched'')), trace = []\<rparr>)"
  using get_content_direct [of
      "\<lparr>status_code = 200, headers = [str_of ''Location'' \<mapsto> []], content = ''own''\<rparr>"
      None True sample_lib False True False True
      "\<lparr>net = (\<lambda>k e. Inr (respond ''fetched'')), trace = []\<rparr>"]
  by simp






lemma sample_loads_archive: "json_loads sample_lib sample_archive = None"
  by (simp add: sample_lib_def asset_doc_def listing_doc_def array_doc_def sample_archive_def)

lemma sample_zip_latin1: "zip_open sample_lib latin1_csv = None"
  by (simp add: sample_lib_def sample_archive_def latin1_csv_def)

text \<open>
  Claim C4 where the body is a zip archive (the 126 bytes of the sample archive), status
  200, default arguments: \<^verbatim>\<open>json.loads\<close> rejects the body, the handler then decodes it as
  UTF-8, which fails too (byte \<^verbatim>\<open>0x97\<close>), and the call raises \<^verbatim>\<open>UnicodeDecodeError\<close> instead
  of returning text.
\<close>

theorem get_content_undecodable_json_body:
  "get_content sample_lib (respond sample_archive) None True True True False True
      \<lparr>net = (\<lambda>k e. Inl ConnectionError), trace = []\<rparr>
    = Some (Raise UnicodeDecodeError, \<lparr>net = (\<lambda>k e. Inl ConnectionError), trace = []\<rparr>)"
  using get_content_direct [of "respond sample_archive" None True sample_lib True True False True
      "\<lparr>net = (\<lambda>k e. Inl ConnectionError), trace = []\<rparr>"]
  by (simp add: decode_response_def decode_body_def sample_loads_archive decode_sample_archive
      respond_def)

text \<open>
  Claim C10 where the body is the Latin-1 line \<^verbatim>\<open>caf\xe9,1\<close> and \<open>csv_content\<close> is set:
  whether the archive reader rejects the body (\<open>unzip\<close> set) or the row parser cannot
  decode it (\<open>unzip\<close> not set), the handler's own decoding fails as well and the call
  raises \<^verbatim>\<open>UnicodeDecodeError\<close>.
\<close>

theorem get_content_undecodable_tabular_body:
  "get_content sample_lib (respond latin1_csv) None True True True True True
      \<lparr>net = (\<lambda>k e. Inl ConnectionError), trace = []\<rparr>
    = Some (Raise UnicodeDecodeError, \<lparr>net = (\<lambda>k e. Inl ConnectionError), trace = []\<rparr>)
   \<and> get_content sample_lib (respond latin1_csv) None True True True True False
      \<lparr>net = (\<lambda>k e. Inl ConnectionError), trace = []\<rparr>
    = Some (Raise UnicodeDecodeError, \<lparr>net = (\<lambda>k e. Inl ConnectionError), trace = []\<rparr>)"
  using get_content_direct [of "respond latin1_csv" None True sample_lib True True True True
      "\<lparr>net = (\<lambda>k e. Inl ConnectionError), trace = []\<rparr>"]
    get_content_direct [of "respond latin1_csv" None True sample_lib True True True False
      "\<lparr>net = (\<lambda>k e. Inl ConnectionError), trace = []\<rparr>"]
  by (simp add: decode_response_def decode_body_def zip_first_def sample_zip_latin1
      decode_latin1_csv read_csv_latin1 respond_def)

text \<open>What does hold on these two paths: a body that the try block rejects and that is
  valid UTF-8 comes back as text, and a body that \<^verbatim>\<open>json.loads\<close> accepts comes back as its
  value.\<close>

lemma get_content_text_fallback:
  assumes "status_code r \<in> set (accepted acc)"
    and "\<not> gfl \<or> headers r (str_of ''Location'') = None
      \<or> headers r (str_of ''Location'') = Some []"
    and "decode_body lib csv unzip (content r) = None"
    and "decode_utf8 (content r) = Some t"
  shows "get_content lib r acc True gfl verify csv unzip w = Some (Return (Text t), w)"
  using get_content_direct [OF assms(1,2), of lib True verify csv unzip w] assms(3,4)
  by (simp add: decode_response_def)

lemma get_content_structured:
  assumes "status_code r \<in> set (accepted acc)"
    and "\<not> gfl \<or> headers r (str_of ''Location'') = None
      \<or> headers r (str_of ''Location'') = Some []"
    and "json_loads lib (content r) = Some j"
  shows "get_content lib r acc True gfl verify False unzip w = Some (Return (Structured j), w)"
  using get_content_direct [OF assms(1,2), of lib True verify False unzip w] assms(3)
  by (simp add: decode_response_def decode_body_def)

text \<open>Without unzipping, a body that the row parser cannot decode is never valid UTF-8:
  the degrading to text cannot happen for this kind of failure.\<close>

lemma utf8_feed_ok:
  assumes "utf8_feed st b = Some (st', out)" and "ok_state st"
  shows "ok_state st'"
  using assms by (cases st) (auto split: if_splits)

lemma utf8_feed_ascii:
  assumes "utf8_feed st b = Some (st', out)" and "ok_state st" and "b < 0x80"
  shows "st = Start \<and> st' = Start"
  using assms by (cases st) (auto split: if_splits)

lemma utf8_chunk_ok:
  "utf8_chunk st xs = Some (s, st') \<Longrightarrow> ok_state st \<Longrightarrow> ok_state st'"
proof (induction xs arbitrary: st s)
  case Nil
  then show ?case by simp
next
  case (Cons c cs)
  then show ?case
    by (auto split: option.splits prod.splits dest: utf8_feed_ok)
qed

lemma utf8_chunk_append:
  "utf8_chunk st (xs @ ys) =
     (case utf8_chunk st xs of
        None \<Rightarrow> None
      | Some (s1, st1) \<Rightarrow>
          (case utf8_chunk st1 ys of
             None \<Rightarrow> None
           | Some (s2, st2) \<Rightarrow> Some (s1 @ s2, st2)))"
  by (induction xs arbitrary: st) (auto split: option.splits prod.splits)

lemma utf8_chunk_line_end:
  assumes "utf8_chunk Start (cur @ c # cs) = Some (s, Start)"
    and "(of_char c :: nat) < 0x80"
  shows "\<exists>s1 s2. utf8_chunk Start cur = Some (s1, Start) \<and> utf8_chunk Start cs = Some (s2, Start)"
proof -
  from assms(1) obtain s1 st1 s2 where cur: "utf8_chunk Start cur = Some (s1, st1)"
    and rest: "utf8_chunk st1 (c # cs) = Some (s2, Start)"
    by (auto simp: utf8_chunk_append split: option.splits prod.splits)
  from cur have ok: "ok_state st1" by (rule utf8_chunk_ok) simp
  from rest obtain st2 out s3 where feed: "utf8_feed st1 (of_char c) = Some (st2, out)"
    and tail: "utf8_chunk st2 cs = Some (s3, Start)"
    by (auto split: option.splits prod.splits)
  from utf8_feed_ascii [OF feed ok assms(2)] have "st1 = Start" "st2 = Start" by simp_all
  with cur tail show ?thesis by simp
qed

lemma iterdecode_splitlines_from:
  "utf8_chunk Start (cur @ rest) = Some (s, Start)
    \<Longrightarrow> \<exists>ls. iterdecode Start (splitlines_from cur rest) = Some ls"
proof (induction cur rest arbitrary: s rule: splitlines_from.induct)
  case (1 cur)
  then show ?case by simp
next
  case (2 cur c cs)
  show ?case
  proof (cases "c = CHR 0x0D")
    case cr: True
    then have ascii: "(of_char c :: nat) < 0x80" by simp
    from utf8_chunk_line_end [OF "2.prems" ascii]
    obtain s1 s2 where cur: "utf8_chunk Start cur = Some (s1, Start)"
      and tail: "utf8_chunk Start cs = Some (s2, Start)"
      by blast
    show ?thesis
    proof (cases cs)
      case Nil
      from "2.IH"(1) [OF cr Nil, of s2] tail Nil cr cur show ?thesis
        by auto
    next
      case (Cons d ds)
      show ?thesis
      proof (cases "d = CHR 0x0A")
        case lf: True
        then have "(of_char d :: nat) < 0x80" by simp
        from utf8_chunk_line_end [of "[]" d ds s2] tail Cons this
        obtain s3 where "utf8_chunk Start ds = Some (s3, Start)" by auto
        with "2.IH"(2) [OF cr Cons lf, of s3] Cons cr lf cur show ?thesis
          by auto
      next
        case False
        with "2.IH"(3) [OF cr Cons False, of s2] tail Cons cr cur show ?thesis
          by auto
      qed
    qed
  next
    case nocr: False
    show ?thesis
    proof (cases "c = CHR 0x0A")
      case lf: True
      then have ascii: "(of_char c :: nat) < 0x80" by simp
      from utf8_chunk_line_end [OF "2.prems" ascii]
      obtain s1 s2 where cur: "utf8_chunk Start cur = Some (s1, Start)"
        and tail: "utf8_chunk Start cs = Some (s2, Start)"
        by blast
      with "2.IH"(4) [OF nocr lf, of s2] nocr lf show ?thesis
        by auto
    next
      case False
      with "2.IH"(5) [OF nocr False, of s] "2.prems" nocr show ?thesis
        by simp
    qed
  qed
qed

lemma iterdecode_of_valid:
  assumes "decode_utf8 b = Some t"
  shows "\<exists>ls. iterdecode Start (splitlines b) = Some ls"
proof -
  from assms have "utf8_chunk Start ([] @ b) = Some (t, Start)"
    by (auto simp: decode_utf8_def split: option.splits prod.splits utf8_state.splits)
  then show ?thesis
    unfolding splitlines_def by (rule iterdecode_splitlines_from)
qed

lemma get_content_tabular_decode_failure:
  assumes "status_code r \<in> set (accepted acc)"
    and "\<not> gfl \<or> headers r (str_of ''Location'') = None
      \<or> headers r (str_of ''Location'') = Some []"
    and "iterdecode Start (splitlines (content r)) = None"
  shows "get_content lib r acc True gfl verify True False w = Some (Raise UnicodeDecodeError, w)"
proof -
  have "decode_utf8 (content r) = None"
    using iterdecode_of_valid [of "content r"] assms(3) by (cases "decode_utf8 (content r)") auto
  with assms(3) show ?thesis
    using get_content_direct [OF assms(1,2), of lib True verify True False w]
    by (simp add: decode_response_def decode_body_def read_csv_def)
qed

text \<open>
  Claim C7. With \<open>load\<close> and \<open>csv_content\<close> set, an accepted response and no redirect to
  follow: when the body is the CSV text \<^verbatim>\<open>a,b\n1,2\n\<close> and \<open>unzip\<close> is false, or when the
  body is an archive whose single entry is that text and \<open>unzip\<close> is true, \<^verbatim>\<open>get_content\<close>
  returns exactly the rows \<^verbatim>\<open>[["a","b"],["1","2"]]\<close>, split at the comma.
\<close>

theorem tabular_round_trip:
  assumes "status_code r \<in> set (accepted acc)"
    and "\<not> gfl \<or> headers r (str_of ''Location'') = None
      \<or> headers r (str_of ''Location'') = Some []"
  shows "(content r = ''a,b\<newline>1,2\<newline>''
        \<longrightarrow> get_content lib r acc True gfl verify True False w
            = Some (Return (Tabular [[str_of ''a'', str_of ''b''], [str_of ''1'', str_of ''2'']]),
                    w))
      \<and> (\<forall>name. zip_open lib (content r) = Some [(name, Some ''a,b\<newline>1,2\<newline>'')]
        \<longrightarrow> get_content lib r acc True gfl verify True True w
            = Some (Return (Tabular [[str_of ''a'', str_of ''b''], [str_of ''1'', str_of ''2'']]),
                    w))"
proof (intro conjI allI impI)
  assume "content r = ''a,b\<newline>1,2\<newline>''"
  then have "decode_response lib True True False r
      = Return (Tabular [[str_of ''a'', str_of ''b''], [str_of ''1'', str_of ''2'']])"
    by (simp add: decode_response_def decode_body_def read_csv_text)
  then show "get_content lib r acc True gfl verify True False w
      = Some (Return (Tabular [[str_of ''a'', str_of ''b''], [str_of ''1'', str_of ''2'']]), w)"
    using get_content_direct [OF assms, of lib True verify True False w] by simp
next
  fix name
  assume "zip_open lib (content r) = Some [(name, Some ''a,b\<newline>1,2\<newline>'')]"
  then have "zip_first lib (content r) = Some ''a,b\<newline>1,2\<newline>''"
    by (simp add: zip_first_def)
  then have "decode_response lib True True True r
      = Return (Tabular [[str_of ''a'', str_of ''b''], [str_of ''1'', str_of ''2'']])"
    by (simp add: decode_response_def decode_body_def read_csv_text)
  then show "get_content lib r acc True gfl verify True True w
      = Some (Return (Tabular [[str_of ''a'', str_of ''b''], [str_of ''1'', str_of ''2'']]), w)"
    using get_content_direct [OF assms, of lib True verify True True w] by simp
qed

text \<open>The theorem at the CSV text itself and at the sample archive.\<close>

theorem tabular_round_trip_witness:
  "get_content sample_lib (respond ''a,b\<newline>1,2\<newline>'') None True True True True False
      \<lparr>net = (\<lambda>k e. Inl ConnectionError), trace = []\<rparr>
    = Some (Return (Tabular [[str_of ''a'', str_of ''b''], [str_of ''1'', str_of ''2'']]),
            \<lparr>net = (\<lambda>k e. Inl ConnectionError), trace = []\<rparr>)
   \<and> get_content sample_lib (respond sample_archive) None True True True True True
      \<lparr>net = (\<lambda>k e. Inl ConnectionError), trace = []\<rparr>
    = Some (Return (Tabular [[str_of ''a'', str_of ''b''], [str_of ''1'', str_of ''2'']]),
            \<lparr>net = (\<lambda>k e. Inl ConnectionError), trace = []\<rparr>)"
proof
  show "get_content sample_lib (respond ''a,b\<newline>1,2\<newline>'') None True True True True False
      \<lparr>net = (\<lambda>k e. Inl ConnectionError), trace = []\<rparr>
    = Some (Return (Tabular [[str_of ''a'', str_of ''b''], [str_of ''1'', str_of ''2'']]),
            \<lparr>net = (\<lambda>k e. Inl ConnectionError), trace = []\<rparr>)"
    using tabular_round_trip [of "respond ''a,b\<newline>1,2\<newline>''" None True sample_lib True
        "\<lparr>net = (\<lambda>k e. Inl ConnectionError), trace = []\<rparr>", THEN conjunct1]
    by (simp add: respond_def)
  show "get_content sample_lib (respond sample_archive) None True True True True True
      \<lparr>net = (\<lambda>k e. Inl ConnectionError), trace = []\<rparr>
    = Some (Return (Tabular [[str_of ''a'', str_of ''b''], [str_of ''1'', str_of ''2'']]),
            \<lparr>net = (\<lambda>k e. Inl ConnectionError), trace = []\<rparr>)"
    using tabular_round_trip [of "respond sample_archive" None True sample_lib True
        "\<lparr>net = (\<lambda>k e. Inl ConnectionError), trace = []\<rparr>", THEN conjunct2, rule_format,
        of "str_of ''report.csv''"]
    by (simp add: respond_def sample_lib_def csv_text_def)
qed

section \<open>Properties of the asset operations\<close>

lemma get_content_total:
  "\<exists>res w'. get_content lib r acc load gfl verify csv unzip w = Some (res, w')"
proof (cases "status_code r \<in> set (accepted acc)")
  case False
  then show ?thesis
    using get_content_reject [of r acc lib load gfl verify csv unzip w] by simp
next
  case ok: True
  show ?thesis
  proof (cases "\<not> gfl \<or> headers r (str_of ''Location'') = None
      \<or> headers r (str_of ''Location'') = Some []")
    case True
    then show ?thesis
      using get_content_direct [OF ok True, of lib load verify csv unzip w] by simp
  next
    case False
    then obtain loc where "gfl" "headers r (str_of ''Location'') = Some loc" "loc \<noteq> []"
      by auto
    from get_content_fetch_ex [OF ok this, of w verify lib load csv unzip]
    show ?thesis by blast
  qed
qed

lemma get_content_body_frame:
  assumes "get_content_body lib r acc load gfl verify csv unzip w = Some (res, w')"
  shows "net w' = net w \<and> client_calls w' = client_calls w"
  using assms
  by (auto simp: get_content_body_def bind_prog_def follow_location_def return_prog_def
      raise_prog_def outcome_prog_def network_def
      split: if_splits option.splits sum.splits outcome.splits prod.splits)

lemma get_content_frame:
  assumes "get_content lib r acc load gfl verify csv unzip w = Some (res, w')"
  shows "net w' = net w \<and> client_calls w' = client_calls w"
proof (rule retry_loop_rel [where R = "\<lambda>w w'. net w' = net w \<and> client_calls w' = client_calls w"
      and func = "get_content_body lib r acc load gfl verify csv unzip"])
  show "net w' = net w \<and> client_calls w' = client_calls w"
    if "get_content_body lib r acc load gfl verify csv unzip w = Some (res, w')" for w res w'
    using that by (rule get_content_body_frame)
  show "net (sleep d w) = net w \<and> client_calls (sleep d w) = client_calls w" for d w
    by simp
  show "net z = net x \<and> client_calls z = client_calls x"
    if "net y = net x \<and> client_calls y = client_calls x"
      and "net z = net y \<and> client_calls z = client_calls y" for x y z
    using that by simp
  show "retry_loop 10 (get_content_body lib r acc load gfl verify csv unzip) 1 0 w = Some (res, w')"
    using assms by (simp add: get_content_def exception_handler_def retry_def)
qed

text \<open>One status check: the client's GET and the decoding of its answer.\<close>

lemma asset_get_unfold:
  "asset_get lib collection asset_id status w =
     (case net w (net_calls w)
        (ClientCall GET
          (str_of ''/{tenant}/'' @ collection @ str_of ''/assets/'' @ py_str lib asset_id) None) of
        Inl err \<Rightarrow>
          Some (Raise (Net err),
            record_event (ClientCall GET
              (str_of ''/{tenant}/'' @ collection @ str_of ''/assets/'' @ py_str lib asset_id)
              None) w)
      | Inr r \<Rightarrow>
          get_content lib r None True True True False True
            (record_event (ClientCall GET
              (str_of ''/{tenant}/'' @ collection @ str_of ''/assets/'' @ py_str lib asset_id)
              None) w))"
  by (simp add: asset_get_def exception_handler_def bind_prog_def network_def return_prog_def
      split: sum.split option.split prod.split outcome.split)

lemma asset_get_total: "\<exists>res w'. asset_get lib collection asset_id status w = Some (res, w')"
  by (simp add: asset_get_unfold get_content_total split: sum.split)

lemma asset_get_frame:
  assumes "asset_get lib collection asset_id status w = Some (res, w')"
  shows "net w' = net w \<and> client_calls w' = client_calls w + 1"
  using assms
  by (auto simp: asset_get_unfold split: sum.splits dest: get_content_frame)

lemma asset_get_answer:
  assumes "net w (net_calls w)
      (ClientCall GET
        (str_of ''/{tenant}/'' @ collection @ str_of ''/assets/'' @ py_str lib asset_id) None)
      = Inr r"
    and "status_code r = 200 \<or> status_code r = 204"
    and "headers r (str_of ''Location'') = None"
  shows "asset_get lib collection asset_id status w
      = Some (decode_response lib True False True r,
          record_event (ClientCall GET
            (str_of ''/{tenant}/'' @ collection @ str_of ''/assets/'' @ py_str lib asset_id)
            None) w)"
proof -
  have ok: "status_code r \<in> set (accepted None)" using assms(2) by auto
  have direct: "\<not> True \<or> headers r (str_of ''Location'') = None
      \<or> headers r (str_of ''Location'') = Some []"
    using assms(3) by simp
  show ?thesis
    using assms(1) get_content_direct [OF ok direct]
    by (simp add: asset_get_unfold)
qed

text \<open>The loop of \<^verbatim>\<open>asset_polling\<close>, one turn at a time.\<close>

lemma asset_polling_loop_stop:
  assumes "subscript asset (str_of ''status'') = Return st"
    and "st \<noteq> JString (str_of ''uploading'')" and "st \<noteq> JString (str_of ''processing'')"
  shows "asset_polling_loop lib collection asset_id asset w = Some (Return st, w)"
  using assms by (subst asset_polling_loop.simps) simp

lemma asset_polling_loop_again:
  assumes "subscript asset (str_of ''status'') = Return st"
    and "st = JString (str_of ''uploading'') \<or> st = JString (str_of ''processing'')"
    and "asset_get lib collection asset_id False w = Some (Return asset', w')"
  shows "asset_polling_loop lib collection asset_id asset w
      = asset_polling_loop lib collection asset_id asset' (sleep 1 w')"
  using assms by (subst asset_polling_loop.simps) auto

lemma asset_polling_loop_result:
  assumes "asset_polling_loop lib collection asset_id asset w = Some y"
  shows "\<forall>st w'. y = (Return st, w')
        \<longrightarrow> st \<noteq> JString (str_of ''uploading'') \<and> st \<noteq> JString (str_of ''processing'')"
proof (rule asset_polling_loop.raw_induct
    [where P = "\<lambda>lib collection asset_id asset w y. \<forall>st w'. y = (Return st, w')
        \<longrightarrow> st \<noteq> JString (str_of ''uploading'') \<and> st \<noteq> JString (str_of ''processing'')",
     OF _ assms])
  fix loop :: "pylib \<Rightarrow> str \<Rightarrow> json \<Rightarrow> content_value \<Rightarrow> world
      \<Rightarrow> (json outcome \<times> world) option"
    and lib collection asset_id asset w y
  assume IH: "\<And>lib collection asset_id asset w y.
      loop lib collection asset_id asset w = Some y
      \<Longrightarrow> \<forall>st w'. y = (Return st, w')
        \<longrightarrow> st \<noteq> JString (str_of ''uploading'') \<and> st \<noteq> JString (str_of ''processing'')"
  assume step: "(case subscript asset (str_of ''status'') of
        Return st \<Rightarrow>
          if st = JString (str_of ''uploading'') \<or> st = JString (str_of ''processing'')
          then case asset_get lib collection asset_id False w of
                 None \<Rightarrow> None
               | Some (Return asset', w') \<Rightarrow> loop lib collection asset_id asset' (sleep 1 w')
               | Some (Raise e, w') \<Rightarrow> Some (Raise e, w')
          else Some (Return st, w)
      | Raise e \<Rightarrow> Some (Raise e, w)) = Some y"
  show "\<forall>st w'. y = (Return st, w')
        \<longrightarrow> st \<noteq> JString (str_of ''uploading'') \<and> st \<noteq> JString (str_of ''processing'')"
  proof (cases "subscript asset (str_of ''status'')")
    case (Raise e)
    with step show ?thesis by auto
  next
    case (Return s)
    show ?thesis
    proof (cases "s = JString (str_of ''uploading'') \<or> s = JString (str_of ''processing'')")
      case False
      with Return step show ?thesis by auto
    next
      case True
      show ?thesis
      proof (cases "asset_get lib collection asset_id False w")
        case None
        with Return True step show ?thesis by auto
      next
        case (Some p)
        obtain res w1 where p: "p = (res, w1)" by (cases p)
        show ?thesis
        proof (cases res)
          case (Raise e)
          with Return True Some p step show ?thesis by auto
        next
          case next_asset: (Return a)
          with Return True Some p step
          have "loop lib collection asset_id a (sleep 1 w1) = Some y" by auto
          then show ?thesis by (rule IH)
        qed
      qed
    qed
  qed
qed

lemma asset_polling_loop_terminal:
  assumes "asset_polling_loop lib collection asset_id asset w = Some (Return st, w')"
  shows "st \<noteq> JString (str_of ''uploading'') \<and> st \<noteq> JString (str_of ''processing'')"
  using asset_polling_loop_result [OF assms] by simp

lemma asset_polling_terminal:
  assumes "asset_polling lib collection asset_id w = Some (Return st, w')"
  shows "st \<noteq> JString (str_of ''uploading'') \<and> st \<noteq> JString (str_of ''processing'')"
  using assms
  by (auto simp: asset_polling_def bind_prog_def
      split: option.splits prod.splits outcome.splits dest: asset_polling_loop_terminal)

lemma asset_polling_three:
  assumes "asset_get lib collection asset_id False w = Some (Return a1, w1)"
    and "subscript a1 (str_of ''status'') = Return (JString (str_of ''uploading''))"
    and "asset_get lib collection asset_id False w1 = Some (Return a2, w2)"
    and "subscript a2 (str_of ''status'') = Return (JString (str_of ''processing''))"
    and "asset_get lib collection asset_id False (sleep 1 w2) = Some (Return a3, w3)"
    and "subscript a3 (str_of ''status'') = Return st"
    and "st \<noteq> JString (str_of ''uploading'')" and "st \<noteq> JString (str_of ''processing'')"
  shows "asset_polling lib collection asset_id w = Some (Return st, sleep 1 w3)"
    and "client_calls (sleep 1 w3) = client_calls w + 3"
proof -
  have "asset_polling lib collection asset_id w
      = asset_polling_loop lib collection asset_id a1 w1"
    using assms(1) by (simp add: asset_polling_def bind_prog_def)
  also have "\<dots> = asset_polling_loop lib collection asset_id a2 (sleep 1 w2)"
    by (rule asset_polling_loop_again [OF assms(2) _ assms(3)]) simp
  also have "\<dots> = asset_polling_loop lib collection asset_id a3 (sleep 1 w3)"
    by (rule asset_polling_loop_again [OF assms(4) _ assms(5)]) simp
  also have "\<dots> = Some (Return st, sleep 1 w3)"
    using assms(6,7,8) by (rule asset_polling_loop_stop)
  finally show "asset_polling lib collection asset_id w = Some (Return st, sleep 1 w3)" .
  show "client_calls (sleep 1 w3) = client_calls w + 3"
    using asset_get_frame [OF assms(1)] asset_get_frame [OF assms(3)]
      asset_get_frame [OF assms(5)]
    by simp
qed

lemma asset_polling_one:
  assumes "asset_get lib collection asset_id False w = Some (Return a1, w1)"
    and "subscript a1 (str_of ''status'') = Return st"
    and "st \<noteq> JString (str_of ''uploading'')" and "st \<noteq> JString (str_of ''processing'')"
  shows "asset_polling lib collection asset_id w = Some (Return st, w1)"
    and "client_calls w1 = client_calls w + 1"
proof -
  have "asset_polling lib collection asset_id w
      = asset_polling_loop lib collection asset_id a1 w1"
    using assms(1) by (simp add: asset_polling_def bind_prog_def)
  also have "\<dots> = Some (Return st, w1)"
    using assms(2,3,4) by (rule asset_polling_loop_stop)
  finally show "asset_polling lib collection asset_id w = Some (Return st, w1)" .
  show "client_calls w1 = client_calls w + 1"
    using asset_get_frame [OF assms(1)] by simp
qed

text \<open>
  Claim C8. Let the client's GET be answered by a response that \<^verbatim>\<open>get_content\<close> decodes to
  \<open>c\<close>. If \<open>c\<close> is a mapping with the keys \<^verbatim>\<open>count\<close>, \<^verbatim>\<open>total\<close> and \<^verbatim>\<open>content\<close>, \<^verbatim>\<open>asset_list\<close>
  returns the value of \<^verbatim>\<open>content\<close>; if \<open>c\<close> is a sequence, it raises the exception for an
  unexpected content type (of type \<^verbatim>\<open>list\<close>) and returns no value.
\<close>

theorem asset_list_shaping:
  assumes "net w (net_calls w)
      (ClientCall GET
        (str_of ''/{tenant}/'' @ collection @ str_of ''/assets?latest=''
           @ (if latest then str_of ''true'' else str_of ''false'')) None) = Inr r"
    and "get_content lib r None True True True False True
      (record_event (ClientCall GET
        (str_of ''/{tenant}/'' @ collection @ str_of ''/assets?latest=''
           @ (if latest then str_of ''true'' else str_of ''false'')) None) w)
      = Some (Return c, w')"
  shows "(\<forall>items n t v. c = Structured (JObject items)
          \<and> map_of items (str_of ''count'') = Some n
          \<and> map_of items (str_of ''total'') = Some t
          \<and> map_of items (str_of ''content'') = Some v
        \<longrightarrow> asset_list lib collection latest w = Some (Return v, w'))
      \<and> (\<forall>xs. c = Structured (JArray xs)
        \<longrightarrow> asset_list lib collection latest w = Some (Raise (UnexpectedContentType TList), w'))"
  using assms
  by (simp add: asset_list_def exception_handler_def bind_prog_def network_def
      outcome_prog_def raise_prog_def subscript_def)

subsection \<open>The sample documents\<close>

lemma sample_decode_asset:
  "st \<in> {''uploading'', ''processing'', ''ready''}
    \<Longrightarrow> decode_response sample_lib True False True (respond (asset_doc st))
      = Return (Structured (asset_record st))"
  by (auto simp: decode_response_def decode_body_def sample_lib_def respond_def asset_doc_def)

lemma sample_status:
  "subscript (Structured (asset_record st)) (str_of ''status'') = Return (JString (str_of st))"
  by (simp add: subscript_def asset_record_def)

lemma sample_id:
  "subscript (Structured (asset_record st)) (str_of ''id'') = Return (JString (str_of ''a1''))"
  by (simp add: subscript_def asset_record_def)

lemma sample_listing:
  "decode_response sample_lib True False True (respond listing_doc) = Return (Structured listing)"
  "decode_response sample_lib True False True (respond array_doc)
    = Return (Structured (JArray [JString (str_of ''A''), JString (str_of ''B'')]))"
  by (simp_all add: decode_response_def decode_body_def sample_lib_def respond_def asset_doc_def
      listing_doc_def array_doc_def)

text \<open>The theorem at a listing with two assets, and at a body that is a JSON array.\<close>

theorem asset_list_shaping_witness:
  "asset_list sample_lib (str_of ''portfolios'') True
      \<lparr>net = (\<lambda>k e. Inr (respond listing_doc)), trace = []\<rparr>
    = Some (Return (JArray [JString (str_of ''A''), JString (str_of ''B'')]),
        \<lparr>net = (\<lambda>k e. Inr (respond listing_doc)),
         trace = [ClientCall GET (str_of ''/{tenant}/portfolios/assets?latest=true'') None]\<rparr>)
   \<and> asset_list sample_lib (str_of ''portfolios'') True
      \<lparr>net = (\<lambda>k e. Inr (respond array_doc)), trace = []\<rparr>
    = Some (Raise (UnexpectedContentType TList),
        \<lparr>net = (\<lambda>k e. Inr (respond array_doc)),
         trace = [ClientCall GET (str_of ''/{tenant}/portfolios/assets?latest=true'') None]\<rparr>)"
proof
  let ?ev = "ClientCall GET (str_of ''/{tenant}/portfolios/assets?latest=true'') None"
  have ep: "str_of ''/{tenant}/'' @ str_of ''portfolios'' @ str_of ''/assets?latest=''
      @ str_of ''true'' = str_of ''/{tenant}/portfolios/assets?latest=true''"
    by (simp add: str_of_def)
  have direct: "get_content sample_lib (respond b) None True True True False True w
      = Some (decode_response sample_lib True False True (respond b), w)" for b w
    by (rule get_content_direct) (simp_all add: respond_def)
  show "asset_list sample_lib (str_of ''portfolios'') True
      \<lparr>net = (\<lambda>k e. Inr (respond listing_doc)), trace = []\<rparr>
    = Some (Return (JArray [JString (str_of ''A''), JString (str_of ''B'')]),
        \<lparr>net = (\<lambda>k e. Inr (respond listing_doc)), trace = [?ev]\<rparr>)"
    using asset_list_shaping [of "\<lparr>net = (\<lambda>k e. Inr (respond listing_doc)), trace = []\<rparr>"
        "str_of ''portfolios''" True "respond listing_doc" sample_lib "Structured listing"
        "\<lparr>net = (\<lambda>k e. Inr (respond listing_doc)), trace = [?ev]\<rparr>",
        THEN conjunct1, rule_format,
        of "[(str_of ''count'', JInt 2), (str_of ''total'', JInt 10),
             (str_of ''content'', JArray [JString (str_of ''A''), JString (str_of ''B'')])]"
           "JInt 2" "JInt 10" "JArray [JString (str_of ''A''), JString (str_of ''B'')]"]
    by (simp add: ep direct sample_listing record_event_def listing_def)
  show "asset_list sample_lib (str_of ''portfolios'') True
      \<lparr>net = (\<lambda>k e. Inr (respond array_doc)), trace = []\<rparr>
    = Some (Raise (UnexpectedContentType TList),
        \<lparr>net = (\<lambda>k e. Inr (respond array_doc)), trace = [?ev]\<rparr>)"
    using asset_list_shaping [of "\<lparr>net = (\<lambda>k e. Inr (respond array_doc)), trace = []\<rparr>"
        "str_of ''portfolios''" True "respond array_doc" sample_lib
        "Structured (JArray [JString (str_of ''A''), JString (str_of ''B'')])"
        "\<lparr>net = (\<lambda>k e. Inr (respond array_doc)), trace = [?ev]\<rparr>",
        THEN conjunct2, rule_format, of "[JString (str_of ''A''), JString (str_of ''B'')]"]
    by (simp add: ep direct sample_listing record_event_def)
qed

text \<open>
  Claim C3, amended. If successive status checks of \<^verbatim>\<open>asset_polling\<close> observe the statuses
  \<^verbatim>\<open>uploading\<close>, \<^verbatim>\<open>processing\<close>, \<^verbatim>\<open>ready\<close> in that order, polling performs exactly three
  status checks (it sleeps one time unit after the second and after the third), then
  stops and returns the status last observed, the string \<^verbatim>\<open>ready\<close>, not the record. If the
  first check observes a status outside \<^verbatim>\<open>uploading\<close> and \<^verbatim>\<open>processing\<close>, polling performs
  exactly one check and returns that status.
\<close>

theorem asset_polling_checks:
  "(\<forall>a1 w1 a2 w2 a3 w3.
       asset_get lib collection asset_id False w = Some (Return a1, w1)
     \<and> subscript a1 (str_of ''status'') = Return (JString (str_of ''uploading''))
     \<and> asset_get lib collection asset_id False w1 = Some (Return a2, w2)
     \<and> subscript a2 (str_of ''status'') = Return (JString (str_of ''processing''))
     \<and> asset_get lib collection asset_id False (sleep 1 w2) = Some (Return a3, w3)
     \<and> subscript a3 (str_of ''status'') = Return (JString (str_of ''ready''))
     \<longrightarrow> asset_polling lib collection asset_id w
           = Some (Return (JString (str_of ''ready'')), sleep 1 w3)
         \<and> client_calls (sleep 1 w3) = client_calls w + 3)
   \<and> (\<forall>a1 w1 st.
       asset_get lib collection asset_id False w = Some (Return a1, w1)
     \<and> subscript a1 (str_of ''status'') = Return st
     \<and> st \<noteq> JString (str_of ''uploading'') \<and> st \<noteq> JString (str_of ''processing'')
     \<longrightarrow> asset_polling lib collection asset_id w = Some (Return st, w1)
         \<and> client_calls w1 = client_calls w + 1)"
proof (intro conjI allI impI)
  fix a1 w1 a2 w2 a3 w3
  assume h: "asset_get lib collection asset_id False w = Some (Return a1, w1)
     \<and> subscript a1 (str_of ''status'') = Return (JString (str_of ''uploading''))
     \<and> asset_get lib collection asset_id False w1 = Some (Return a2, w2)
     \<and> subscript a2 (str_of ''status'') = Return (JString (str_of ''processing''))
     \<and> asset_get lib collection asset_id False (sleep 1 w2) = Some (Return a3, w3)
     \<and> subscript a3 (str_of ''status'') = Return (JString (str_of ''ready''))"
  have ready: "JString (str_of ''ready'') \<noteq> JString (str_of ''uploading'')"
    "JString (str_of ''ready'') \<noteq> JString (str_of ''processing'')"
    by simp_all
  from h ready show "asset_polling lib collection asset_id w
      = Some (Return (JString (str_of ''ready'')), sleep 1 w3)"
    by (intro asset_polling_three(1) [of lib collection asset_id w a1 w1 a2 w2 a3 w3]) simp_all
  from h ready show "client_calls (sleep 1 w3) = client_calls w + 3"
    by (intro asset_polling_three(2) [of lib collection asset_id w a1 w1 a2 w2 a3 w3
          "JString (str_of ''ready'')"]) simp_all
next
  fix a1 w1 st
  assume h: "asset_get lib collection asset_id False w = Some (Return a1, w1)
     \<and> subscript a1 (str_of ''status'') = Return st
     \<and> st \<noteq> JString (str_of ''uploading'') \<and> st \<noteq> JString (str_of ''processing'')"
  then show "asset_polling lib collection asset_id w = Some (Return st, w1)"
    by (intro asset_polling_one(1) [of lib collection asset_id w a1 w1 st]) simp_all
  from h show "client_calls w1 = client_calls w + 1"
    by (intro asset_polling_one(2) [of lib collection asset_id w a1 w1 st]) simp_all
qed

lemma sample_asset_get:
  assumes "net w (net_calls w) (ClientCall GET (str_of ''/{tenant}/portfolios/assets/a1'') None)
      = Inr (respond (asset_doc st))"
    and "st \<in> {''uploading'', ''processing'', ''ready''}"
  shows "asset_get sample_lib (str_of ''portfolios'') (JString (str_of ''a1'')) False w
      = Some (Return (Structured (asset_record st)),
          record_event (ClientCall GET (str_of ''/{tenant}/portfolios/assets/a1'') None) w)"
proof -
  have ep: "str_of ''/{tenant}/'' @ str_of ''portfolios'' @ str_of ''/assets/''
      @ py_str sample_lib (JString (str_of ''a1'')) = str_of ''/{tenant}/portfolios/assets/a1''"
    by (simp add: str_of_def py_str_def)
  show ?thesis
    using asset_get_answer [of w "str_of ''portfolios''" sample_lib "JString (str_of ''a1'')"
        "respond (asset_doc st)" False] assms(1) sample_decode_asset [OF assms(2)]
    by (simp add: ep respond_def)
qed

lemma sample_polling_run:
  "asset_polling sample_lib (str_of ''portfolios'') (JString (str_of ''a1''))
      \<lparr>net = upload_server, trace = []\<rparr>
    = Some (Return (JString (str_of ''ready'')),
        \<lparr>net = upload_server,
         trace = [ClientCall GET (str_of ''/{tenant}/portfolios/assets/a1'') None,
                  ClientCall GET (str_of ''/{tenant}/portfolios/assets/a1'') None, Slept 1,
                  ClientCall GET (str_of ''/{tenant}/portfolios/assets/a1'') None, Slept 1]\<rparr>)"
proof -
  let ?ev = "ClientCall GET (str_of ''/{tenant}/portfolios/assets/a1'') None"
  let ?w0 = "\<lparr>net = upload_server, trace = []\<rparr>"
  let ?w1 = "\<lparr>net = upload_server, trace = [?ev]\<rparr>"
  let ?w2 = "\<lparr>net = upload_server, trace = [?ev, ?ev]\<rparr>"
  let ?w2s = "\<lparr>net = upload_server, trace = [?ev, ?ev, Slept 1]\<rparr>"
  let ?w3 = "\<lparr>net = upload_server, trace = [?ev, ?ev, Slept 1, ?ev]\<rparr>"
  let ?w3s = "\<lparr>net = upload_server, trace = [?ev, ?ev, Slept 1, ?ev, Slept 1]\<rparr>"
  have g1: "asset_get sample_lib (str_of ''portfolios'') (JString (str_of ''a1'')) False ?w0
      = Some (Return (Structured (asset_record ''uploading'')), ?w1)"
    using sample_asset_get [of ?w0 "''uploading''"]
    by (simp add: net_calls_def upload_server_def record_event_def)
  have g2: "asset_get sample_lib (str_of ''portfolios'') (JString (str_of ''a1'')) False ?w1
      = Some (Return (Structured (asset_record ''processing'')), ?w2)"
    using sample_asset_get [of ?w1 "''processing''"]
    by (simp add: net_calls_def upload_server_def record_event_def)
  have s2: "sleep 1 ?w2 = ?w2s" by (simp add: sleep_def record_event_def)
  have g3: "asset_get sample_lib (str_of ''portfolios'') (JString (str_of ''a1'')) False
        (sleep 1 ?w2)
      = Some (Return (Structured (asset_record ''ready'')), ?w3)"
    unfolding s2 using sample_asset_get [of ?w2s "''ready''"]
    by (simp add: net_calls_def upload_server_def record_event_def)
  have s3: "sleep 1 ?w3 = ?w3s" by (simp add: sleep_def record_event_def)
  have "asset_polling sample_lib (str_of ''portfolios'') (JString (str_of ''a1'')) ?w0
      = Some (Return (JString (str_of ''ready'')), sleep 1 ?w3)"
    by (rule asset_polling_three(1) [OF g1 sample_status g2 sample_status g3 sample_status])
      simp_all
  then show ?thesis by (simp only: s3)
qed

text \<open>
  Claim C3 as stated fails: on the sample server the third status check observes the
  record with status \<^verbatim>\<open>ready\<close>, and \<^verbatim>\<open>asset_polling\<close> returns \<^verbatim>\<open>asset["status"]\<close>, the string,
  which is not that record.
\<close>

theorem asset_polling_returns_status_counterexample:
  "asset_polling sample_lib (str_of ''portfolios'') (JString (str_of ''a1''))
      \<lparr>net = upload_server, trace = []\<rparr>
    = Some (Return (JString (str_of ''ready'')),
        \<lparr>net = upload_server,
         trace = [ClientCall GET (str_of ''/{tenant}/portfolios/assets/a1'') None,
                  ClientCall GET (str_of ''/{tenant}/portfolios/assets/a1'') None, Slept 1,
                  ClientCall GET (str_of ''/{tenant}/portfolios/assets/a1'') None, Slept 1]\<rparr>)
   \<and> asset_get sample_lib (str_of ''portfolios'') (JString (str_of ''a1'')) False
      \<lparr>net = upload_server,
       trace = [ClientCall GET (str_of ''/{tenant}/portfolios/assets/a1'') None,
                ClientCall GET (str_of ''/{tenant}/portfolios/assets/a1'') None, Slept 1]\<rparr>
    = Some (Return (Structured (asset_record ''ready'')),
        \<lparr>net = upload_server,
         trace = [ClientCall GET (str_of ''/{tenant}/portfolios/assets/a1'') None,
                  ClientCall GET (str_of ''/{tenant}/portfolios/assets/a1'') None, Slept 1,
                  ClientCall GET (str_of ''/{tenant}/portfolios/assets/a1'') None]\<rparr>)
   \<and> JString (str_of ''ready'') \<noteq> asset_record ''ready''"
proof (intro conjI)
  let ?ev = "ClientCall GET (str_of ''/{tenant}/portfolios/assets/a1'') None"
  show "asset_polling sample_lib (str_of ''portfolios'') (JString (str_of ''a1''))
      \<lparr>net = upload_server, trace = []\<rparr>
    = Some (Return (JString (str_of ''ready'')),
        \<lparr>net = upload_server, trace = [?ev, ?ev, Slept 1, ?ev, Slept 1]\<rparr>)"
    by (rule sample_polling_run)
  show "asset_get sample_lib (str_of ''portfolios'') (JString (str_of ''a1'')) False
      \<lparr>net = upload_server, trace = [?ev, ?ev, Slept 1]\<rparr>
    = Some (Return (Structured (asset_record ''ready'')),
        \<lparr>net = upload_server, trace = [?ev, ?ev, Slept 1, ?ev]\<rparr>)"
    using sample_asset_get [of "\<lparr>net = upload_server, trace = [?ev, ?ev, Slept 1]\<rparr>" "''ready''"]
    by (simp add: net_calls_def upload_server_def record_event_def)
  show "JString (str_of ''ready'') \<noteq> asset_record ''ready''"
    by (simp add: asset_record_def)
qed

text \<open>The theorem on the sample server, and on a server whose asset is ready at once.\<close>

theorem asset_polling_checks_witness:
  "asset_polling sample_lib (str_of ''portfolios'') (JString (str_of ''a1''))
      \<lparr>net = upload_server, trace = []\<rparr>
    = Some (Return (JString (str_of ''ready'')),
        \<lparr>net = upload_server,
         trace = [ClientCall GET (str_of ''/{tenant}/portfolios/assets/a1'') None,
                  ClientCall GET (str_of ''/{tenant}/portfolios/assets/a1'') None, Slept 1,
                  ClientCall GET (str_of ''/{tenant}/portfolios/assets/a1'') None, Slept 1]\<rparr>)
   \<and> asset_polling sample_lib (str_of ''portfolios'') (JString (str_of ''a1''))
      \<lparr>net = (\<lambda>k e. Inr (respond (asset_doc ''ready''))), trace = []\<rparr>
    = Some (Return (JString (str_of ''ready'')),
        \<lparr>net = (\<lambda>k e. Inr (respond (asset_doc ''ready''))),
         trace = [ClientCall GET (str_of ''/{tenant}/portfolios/assets/a1'') None]\<rparr>)"
proof
  let ?ev = "ClientCall GET (str_of ''/{tenant}/portfolios/assets/a1'') None"
  let ?w0 = "\<lparr>net = upload_server, trace = []\<rparr>"
  let ?w1 = "\<lparr>net = upload_server, trace = [?ev]\<rparr>"
  let ?w2 = "\<lparr>net = upload_server, trace = [?ev, ?ev]\<rparr>"
  let ?w2s = "\<lparr>net = upload_server, trace = [?ev, ?ev, Slept 1]\<rparr>"
  let ?w3 = "\<lparr>net = upload_server, trace = [?ev, ?ev, Slept 1, ?ev]\<rparr>"
  have g1: "asset_get sample_lib (str_of ''portfolios'') (JString (str_of ''a1'')) False ?w0
      = Some (Return (Structured (asset_record ''uploading'')), ?w1)"
    using sample_asset_get [of ?w0 "''uploading''"]
    by (simp add: net_calls_def upload_server_def record_event_def)
  have g2: "asset_get sample_lib (str_of ''portfolios'') (JString (str_of ''a1'')) False ?w1
      = Some (Return (Structured (asset_record ''processing'')), ?w2)"
    using sample_asset_get [of ?w1 "''processing''"]
    by (simp add: net_calls_def upload_server_def record_event_def)
  have s2: "sleep 1 ?w2 = ?w2s" by (simp add: sleep_def record_event_def)
  have g3: "asset_get sample_lib (str_of ''portfolios'') (JString (str_of ''a1'')) False
        (sleep 1 ?w2)
      = Some (Return (Structured (asset_record ''ready'')), ?w3)"
    unfolding s2 using sample_asset_get [of ?w2s "''ready''"]
    by (simp add: net_calls_def upload_server_def record_event_def)
  show "asset_polling sample_lib (str_of ''portfolios'') (JString (str_of ''a1'')) ?w0
    = Some (Return (JString (str_of ''ready'')),
        \<lparr>net = upload_server, trace = [?ev, ?ev, Slept 1, ?ev, Slept 1]\<rparr>)"
    using asset_polling_checks [of sample_lib "str_of ''portfolios''" "JString (str_of ''a1'')" ?w0,
        THEN conjunct1, rule_format,
        of "Structured (asset_record ''uploading'')" ?w1
           "Structured (asset_record ''processing'')" ?w2
           "Structured (asset_record ''ready'')" ?w3]
      g1 g2 g3
    by (simp add: sample_status sleep_def record_event_def)
  let ?r0 = "\<lparr>net = (\<lambda>k e. Inr (respond (asset_doc ''ready''))), trace = []\<rparr>"
  let ?r1 = "\<lparr>net = (\<lambda>k e. Inr (respond (asset_doc ''ready''))), trace = [?ev]\<rparr>"
  have r: "asset_get sample_lib (str_of ''portfolios'') (JString (str_of ''a1'')) False ?r0
      = Some (Return (Structured (asset_record ''ready'')), ?r1)"
    using sample_asset_get [of ?r0 "''ready''"]
    by (simp add: net_calls_def record_event_def)
  show "asset_polling sample_lib (str_of ''portfolios'') (JString (str_of ''a1'')) ?r0
      = Some (Return (JString (str_of ''ready'')), ?r1)"
    using asset_polling_checks [of sample_lib "str_of ''portfolios''" "JString (str_of ''a1'')" ?r0,
        THEN conjunct2, rule_format,
        of "Structured (asset_record ''ready'')" ?r1 "JString (str_of ''ready'')"]
      r
    by (simp add: sample_status)
qed

text \<open>The poller of copy and import jobs, by contrast, returns the record it observed last.\<close>

lemma assets_db_polling_loop_stop:
  assumes "subscript job (str_of ''state'') = Return st"
    and "st \<noteq> JString (str_of ''uploading'')" and "st \<noteq> JString (str_of ''processing'')"
  shows "assets_db_polling_loop lib db collection copy_id job w = Some (Return job, w)"
  using assms by (subst assets_db_polling_loop.simps) simp

lemma assets_db_polling_loop_again:
  assumes "subscript job (str_of ''state'') = Return st"
    and "st = JString (str_of ''uploading'') \<or> st = JString (str_of ''processing'')"
    and "db_check lib db collection copy_id w = Some (Return job', w')"
  shows "assets_db_polling_loop lib db collection copy_id job w
      = assets_db_polling_loop lib db collection copy_id job' (sleep 1 w')"
  using assms by (subst assets_db_polling_loop.simps) auto

lemma assets_db_polling_two:
  assumes "db_check lib db collection copy_id w = Some (Return j1, w1)"
    and "subscript j1 (str_of ''state'') = Return (JString (str_of ''processing''))"
    and "db_check lib db collection copy_id w1 = Some (Return j2, w2)"
    and "subscript j2 (str_of ''state'') = Return st"
    and "st \<noteq> JString (str_of ''uploading'')" and "st \<noteq> JString (str_of ''processing'')"
  shows "assets_db_polling lib db collection copy_id w = Some (Return j2, sleep 1 w2)"
proof -
  have "assets_db_polling lib db collection copy_id w
      = assets_db_polling_loop lib db collection copy_id j1 w1"
    using assms(1) by (simp add: assets_db_polling_def bind_prog_def)
  also have "\<dots> = assets_db_polling_loop lib db collection copy_id j2 (sleep 1 w2)"
    by (rule assets_db_polling_loop_again [OF assms(2) _ assms(3)]) simp
  also have "\<dots> = Some (Return j2, sleep 1 w2)"
    using assms(4,5,6) by (rule assets_db_polling_loop_stop)
  finally show ?thesis .
qed

text \<open>\<^verbatim>\<open>asset_post\<close>, from the answer to its POST on.\<close>

lemma asset_post_done:
  assumes "asset_post_body lib collection asset_name data params presigned wait verify w
      = Some (Return v, w')"
  shows "asset_post lib collection asset_name data params presigned wait verify w
      = Some (Return v, w')"
  unfolding asset_post_def exception_handler_def retry_def
  using assms by (rule retry_loop_done) simp

lemma get_content_inline:
  assumes "status_code r = 200 \<or> status_code r = 204"
  shows "get_content lib r None True False True False True w
      = Some (decode_response lib True False True r, w)"
  by (rule get_content_direct) (use assms in auto)

text \<open>Polling, from the answers of the network: as long as the status checks observe
  \<^verbatim>\<open>uploading\<close> or \<^verbatim>\<open>processing\<close> the loop asks again, and it ends at the first other
  status.\<close>

lemma asset_polling_loop_run:
  assumes "\<forall>i<n. net u (net_calls u + i)
        (ClientCall GET
          (str_of ''/{tenant}/'' @ collection @ str_of ''/assets/'' @ py_str lib asset_id) None)
        = Inr (R i)
      \<and> (status_code (R i) = 200 \<or> status_code (R i) = 204)
      \<and> headers (R i) (str_of ''Location'') = None
      \<and> decode_response lib True False True (R i) = Return (A (Suc i))"
    and "\<forall>i<n. subscript (A i) (str_of ''status'') = Return (JString (str_of ''uploading''))
      \<or> subscript (A i) (str_of ''status'') = Return (JString (str_of ''processing''))"
    and "subscript (A n) (str_of ''status'') = Return st"
    and "st \<noteq> JString (str_of ''uploading'')" and "st \<noteq> JString (str_of ''processing'')"
  shows "asset_polling_loop lib collection asset_id (A 0) u
      = Some (Return st,
          u\<lparr>trace := trace u
            @ concat (replicate n
                [ClientCall GET
                   (str_of ''/{tenant}/'' @ collection @ str_of ''/assets/''
                      @ py_str lib asset_id) None,
                 Slept 1])\<rparr>)"
  using assms
proof (induction n arbitrary: R A u)
  case 0
  then show ?case by (simp add: asset_polling_loop_stop)
next
  case (Suc n)
  let ?get = "ClientCall GET
      (str_of ''/{tenant}/'' @ collection @ str_of ''/assets/'' @ py_str lib asset_id) None"
  let ?u = "sleep 1 (record_event ?get u)"
  from Suc.prems(1) [THEN spec, of 0] have first: "net u (net_calls u) ?get = Inr (R 0)"
    "status_code (R 0) = 200 \<or> status_code (R 0) = 204"
    "headers (R 0) (str_of ''Location'') = None"
    "decode_response lib True False True (R 0) = Return (A (Suc 0))"
    by simp_all
  have fetch: "asset_get lib collection asset_id False u
      = Some (Return (A (Suc 0)), record_event ?get u)"
    using asset_get_answer [OF first(1,2,3), of False] first(4) by simp
  from Suc.prems(2) obtain s0 where s0: "subscript (A 0) (str_of ''status'') = Return s0"
    "s0 = JString (str_of ''uploading'') \<or> s0 = JString (str_of ''processing'')"
    by auto
  have calls: "net_calls ?u = Suc (net_calls u)"
    by (simp add: net_calls_def sleep_def record_event_def)
  have "asset_polling_loop lib collection asset_id (A 0) u
      = asset_polling_loop lib collection asset_id (A (Suc 0)) ?u"
    by (rule asset_polling_loop_again [OF s0(1) s0(2) fetch])
  also have "\<dots> = Some (Return st, ?u\<lparr>trace := trace ?u @ concat (replicate n [?get, Slept 1])\<rparr>)"
  proof (rule Suc.IH [of ?u "\<lambda>i. R (Suc i)" "\<lambda>i. A (Suc i)"])
    show "\<forall>i<n. net ?u (net_calls ?u + i) ?get = Inr (R (Suc i))
        \<and> (status_code (R (Suc i)) = 200 \<or> status_code (R (Suc i)) = 204)
        \<and> headers (R (Suc i)) (str_of ''Location'') = None
        \<and> decode_response lib True False True (R (Suc i)) = Return (A (Suc (Suc i)))"
    proof (intro allI impI)
      fix i assume "i < n"
      with Suc.prems(1) [THEN spec, of "Suc i"]
      show "net ?u (net_calls ?u + i) ?get = Inr (R (Suc i))
        \<and> (status_code (R (Suc i)) = 200 \<or> status_code (R (Suc i)) = 204)
        \<and> headers (R (Suc i)) (str_of ''Location'') = None
        \<and> decode_response lib True False True (R (Suc i)) = Return (A (Suc (Suc i)))"
        by (simp add: calls)
    qed
    show "\<forall>i<n. subscript (A (Suc i)) (str_of ''status'')
          = Return (JString (str_of ''uploading''))
        \<or> subscript (A (Suc i)) (str_of ''status'') = Return (JString (str_of ''processing''))"
      using Suc.prems(2) by simp
    show "subscript (A (Suc n)) (str_of ''status'') = Return st" by (rule Suc.prems(3))
    show "st \<noteq> JString (str_of ''uploading'')" by (rule Suc.prems(4))
    show "st \<noteq> JString (str_of ''processing'')" by (rule Suc.prems(5))
  qed
  also have "?u\<lparr>trace := trace ?u @ concat (replicate n [?get, Slept 1])\<rparr>
      = u\<lparr>trace := trace u @ concat (replicate (Suc n) [?get, Slept 1])\<rparr>"
    by (simp add: sleep_def record_event_def)
  finally show ?case .
qed

lemma asset_polling_run:
  assumes "\<forall>i\<le>n. net u (net_calls u + i)
        (ClientCall GET
          (str_of ''/{tenant}/'' @ collection @ str_of ''/assets/'' @ py_str lib asset_id) None)
        = Inr (R i)
      \<and> (status_code (R i) = 200 \<or> status_code (R i) = 204)
      \<and> headers (R i) (str_of ''Location'') = None
      \<and> decode_response lib True False True (R i) = Return (A i)"
    and "\<forall>i<n. subscript (A i) (str_of ''status'') = Return (JString (str_of ''uploading''))
      \<or> subscript (A i) (str_of ''status'') = Return (JString (str_of ''processing''))"
    and "subscript (A n) (str_of ''status'') = Return st"
    and "st \<noteq> JString (str_of ''uploading'')" and "st \<noteq> JString (str_of ''processing'')"
  shows "asset_polling lib collection asset_id u
      = Some (Return st,
          u\<lparr>trace := trace u
            @ ClientCall GET
                (str_of ''/{tenant}/'' @ collection @ str_of ''/assets/''
                   @ py_str lib asset_id) None
            # concat (replicate n
                [ClientCall GET
                   (str_of ''/{tenant}/'' @ collection @ str_of ''/assets/''
                      @ py_str lib asset_id) None,
                 Slept 1])\<rparr>)"
proof -
  let ?get = "ClientCall GET
      (str_of ''/{tenant}/'' @ collection @ str_of ''/assets/'' @ py_str lib asset_id) None"
  let ?u = "record_event ?get u"
  from assms(1) [THEN spec, of 0] have first: "net u (net_calls u) ?get = Inr (R 0)"
    "status_code (R 0) = 200 \<or> status_code (R 0) = 204"
    "headers (R 0) (str_of ''Location'') = None"
    "decode_response lib True False True (R 0) = Return (A 0)"
    by simp_all
  have fetch: "asset_get lib collection asset_id False u = Some (Return (A 0), ?u)"
    using asset_get_answer [OF first(1,2,3), of False] first(4) by simp
  have calls: "net_calls ?u = Suc (net_calls u)"
    by (simp add: net_calls_def record_event_def)
  have "asset_polling lib collection asset_id u
      = asset_polling_loop lib collection asset_id (A 0) ?u"
    using fetch by (simp add: asset_polling_def bind_prog_def)
  also have "\<dots> = Some (Return st, ?u\<lparr>trace := trace ?u @ concat (replicate n [?get, Slept 1])\<rparr>)"
  proof (rule asset_polling_loop_run [of n ?u collection lib asset_id "\<lambda>i. R (Suc i)" A])
    show "\<forall>i<n. net ?u (net_calls ?u + i) ?get = Inr (R (Suc i))
        \<and> (status_code (R (Suc i)) = 200 \<or> status_code (R (Suc i)) = 204)
        \<and> headers (R (Suc i)) (str_of ''Location'') = None
        \<and> decode_response lib True False True (R (Suc i)) = Return (A (Suc i))"
    proof (intro allI impI)
      fix i assume "i < n"
      with assms(1) [THEN spec, of "Suc i"]
      show "net ?u (net_calls ?u + i) ?get = Inr (R (Suc i))
        \<and> (status_code (R (Suc i)) = 200 \<or> status_code (R (Suc i)) = 204)
        \<and> headers (R (Suc i)) (str_of ''Location'') = None
        \<and> decode_response lib True False True (R (Suc i)) = Return (A (Suc i))"
        by (simp add: calls)
    qed
  qed (rule assms(2) assms(3) assms(4) assms(5))+
  also have "?u\<lparr>trace := trace ?u @ concat (replicate n [?get, Slept 1])\<rparr>
      = u\<lparr>trace := trace u @ ?get # concat (replicate n [?get, Slept 1])\<rparr>"
    by (simp add: record_event_def)
  finally show ?thesis .
qed

lemma filter_checks:
  "length (filter is_network (concat (replicate n [ClientCall m e b, Slept d]))) = n"
  by (induction n) simp_all

lemma asset_polling_loop_pending:
  assumes "asset_polling_loop lib collection asset_id asset w = Some y"
  shows "\<not> ((subscript asset (str_of ''status'') = Return (JString (str_of ''uploading''))
          \<or> subscript asset (str_of ''status'') = Return (JString (str_of ''processing'')))
        \<and> (\<forall>k\<ge>net_calls w. \<exists>r a.
              net w k (ClientCall GET
                (str_of ''/{tenant}/'' @ collection @ str_of ''/assets/''
                   @ py_str lib asset_id) None) = Inr r
            \<and> (status_code r = 200 \<or> status_code r = 204)
            \<and> headers r (str_of ''Location'') = None
            \<and> decode_response lib True False True r = Return a
            \<and> (subscript a (str_of ''status'') = Return (JString (str_of ''uploading''))
               \<or> subscript a (str_of ''status'')
                  = Return (JString (str_of ''processing'')))))"
proof (rule asset_polling_loop.raw_induct
    [where P = "\<lambda>lib collection asset_id asset w y.
      \<not> ((subscript asset (str_of ''status'') = Return (JString (str_of ''uploading''))
          \<or> subscript asset (str_of ''status'') = Return (JString (str_of ''processing'')))
        \<and> (\<forall>k\<ge>net_calls w. \<exists>r a.
              net w k (ClientCall GET
                (str_of ''/{tenant}/'' @ collection @ str_of ''/assets/''
                   @ py_str lib asset_id) None) = Inr r
            \<and> (status_code r = 200 \<or> status_code r = 204)
            \<and> headers r (str_of ''Location'') = None
            \<and> decode_response lib True False True r = Return a
            \<and> (subscript a (str_of ''status'') = Return (JString (str_of ''uploading''))
               \<or> subscript a (str_of ''status'')
                  = Return (JString (str_of ''processing'')))))",
     OF _ assms])
  fix loop :: "pylib \<Rightarrow> str \<Rightarrow> json \<Rightarrow> content_value \<Rightarrow> world
      \<Rightarrow> (json outcome \<times> world) option"
    and lib collection asset_id asset w y
  let ?get = "ClientCall GET
      (str_of ''/{tenant}/'' @ collection @ str_of ''/assets/'' @ py_str lib asset_id) None"
  let ?pending = "\<lambda>a. subscript a (str_of ''status'') = Return (JString (str_of ''uploading''))
      \<or> subscript a (str_of ''status'') = Return (JString (str_of ''processing''))"
  let ?answers = "\<lambda>w. \<forall>k\<ge>net_calls w. \<exists>r a.
        net w k ?get = Inr r
      \<and> (status_code r = 200 \<or> status_code r = 204)
      \<and> headers r (str_of ''Location'') = None
      \<and> decode_response lib True False True r = Return a
      \<and> ?pending a"
  assume IH: "\<And>lib collection asset_id asset w y.
      loop lib collection asset_id asset w = Some y
      \<Longrightarrow> \<not> ((subscript asset (str_of ''status'') = Return (JString (str_of ''uploading''))
          \<or> subscript asset (str_of ''status'') = Return (JString (str_of ''processing'')))
        \<and> (\<forall>k\<ge>net_calls w. \<exists>r a.
              net w k (ClientCall GET
                (str_of ''/{tenant}/'' @ collection @ str_of ''/assets/''
                   @ py_str lib asset_id) None) = Inr r
            \<and> (status_code r = 200 \<or> status_code r = 204)
            \<and> headers r (str_of ''Location'') = None
            \<and> decode_response lib True False True r = Return a
            \<and> (subscript a (str_of ''status'') = Return (JString (str_of ''uploading''))
               \<or> subscript a (str_of ''status'')
                  = Return (JString (str_of ''processing'')))))"
  assume step: "(case subscript asset (str_of ''status'') of
        Return st \<Rightarrow>
          if st = JString (str_of ''uploading'') \<or> st = JString (str_of ''processing'')
          then case asset_get lib collection asset_id False w of
                 None \<Rightarrow> None
               | Some (Return asset', w') \<Rightarrow> loop lib collection asset_id asset' (sleep 1 w')
               | Some (Raise e, w') \<Rightarrow> Some (Raise e, w')
          else Some (Return st, w)
      | Raise e \<Rightarrow> Some (Raise e, w)) = Some y"
  show "\<not> (?pending asset \<and> ?answers w)"
  proof
    assume inv: "?pending asset \<and> ?answers w"
    then have pending: "?pending asset" and answers: "?answers w" by simp_all
    from answers obtain r a where first: "net w (net_calls w) ?get = Inr r"
        "status_code r = 200 \<or> status_code r = 204"
        "headers r (str_of ''Location'') = None"
      and a: "decode_response lib True False True r = Return a" "?pending a"
      by blast
    have fetch: "asset_get lib collection asset_id False w
        = Some (Return a, record_event ?get w)"
      using asset_get_answer [OF first, of False] a(1) by simp
    have calls: "net_calls (sleep 1 (record_event ?get w)) = Suc (net_calls w)"
      by (simp add: net_calls_def sleep_def record_event_def)
    from pending fetch step
    have "loop lib collection asset_id a (sleep 1 (record_event ?get w)) = Some y"
      by auto
    from IH [OF this] a(2) have "\<not> ?answers (sleep 1 (record_event ?get w))"
      by blast
    moreover have "?answers (sleep 1 (record_event ?get w))"
      using answers by (simp add: calls)
    ultimately show False by contradiction
  qed
qed

lemma asset_polling_pending:
  assumes "\<forall>k\<ge>net_calls w. \<exists>r a.
        net w k (ClientCall GET
          (str_of ''/{tenant}/'' @ collection @ str_of ''/assets/''
             @ py_str lib asset_id) None) = Inr r
      \<and> (status_code r = 200 \<or> status_code r = 204)
      \<and> headers r (str_of ''Location'') = None
      \<and> decode_response lib True False True r = Return a
      \<and> (subscript a (str_of ''status'') = Return (JString (str_of ''uploading''))
         \<or> subscript a (str_of ''status'') = Return (JString (str_of ''processing'')))"
  shows "asset_polling lib collection asset_id w = None"
proof -
  let ?get = "ClientCall GET
      (str_of ''/{tenant}/'' @ collection @ str_of ''/assets/'' @ py_str lib asset_id) None"
  from assms obtain r a where first: "net w (net_calls w) ?get = Inr r"
      "status_code r = 200 \<or> status_code r = 204"
      "headers r (str_of ''Location'') = None"
    and a: "decode_response lib True False True r = Return a"
      "subscript a (str_of ''status'') = Return (JString (str_of ''uploading''))
        \<or> subscript a (str_of ''status'') = Return (JString (str_of ''processing''))"
    by blast
  have fetch: "asset_get lib collection asset_id False w
      = Some (Return a, record_event ?get w)"
    using asset_get_answer [OF first, of False] a(1) by simp
  have calls: "net_calls (record_event ?get w) = Suc (net_calls w)"
    by (simp add: net_calls_def record_event_def)
  have later: "\<forall>k\<ge>net_calls (record_event ?get w). \<exists>r a.
        net (record_event ?get w) k ?get = Inr r
      \<and> (status_code r = 200 \<or> status_code r = 204)
      \<and> headers r (str_of ''Location'') = None
      \<and> decode_response lib True False True r = Return a
      \<and> (subscript a (str_of ''status'') = Return (JString (str_of ''uploading''))
         \<or> subscript a (str_of ''status'') = Return (JString (str_of ''processing'')))"
    using assms by (simp add: calls)
  have "asset_polling_loop lib collection asset_id a (record_event ?get w) = None"
  proof (cases "asset_polling_loop lib collection asset_id a (record_event ?get w)")
    case None
    then show ?thesis .
  next
    case (Some y)
    from asset_polling_loop_pending [OF Some] a(2) later show ?thesis by blast
  qed
  then show ?thesis
    using fetch by (simp add: asset_polling_def bind_prog_def)
qed

lemma retry_none:
  assumes "func w = None"
  shows "retry ntimes func w = None"
  unfolding retry_def
  using assms by (subst retry_loop.simps) simp

text \<open>
  Claim C9, amended. Let the POST of \<^verbatim>\<open>asset_post\<close> be answered by a response with status
  200 or 204 whose body decodes to a content with an \<^verbatim>\<open>id\<close>, and let every GET of the asset
  of that \<^verbatim>\<open>id\<close> named below be answered by a response with status 200 or 204, no Location
  header and a body that decodes.

  \<^item> Without a Location header in the answer to the POST, the operation returns that
    content, having called nothing else.

  \<^item> With a Location header and a payload that is a string with a UTF-8 encoding, that
    encoding, stripped of the ASCII whitespace at both ends, is PUT to that location. Let
    the PUT be answered. If \<open>wait\<close> is not set, the operation fetches the asset once and
    returns the record fetched.

  \<^item> If \<open>wait\<close> is set and the status checks observe \<open>n\<close> times \<^verbatim>\<open>uploading\<close> or
    \<^verbatim>\<open>processing\<close> and then another status, the operation makes exactly \<open>n + 1\<close> checks, with
    a sleep of one second after each check but the first, then fetches the asset once more
    and returns the record fetched.

  \<^item> If \<open>wait\<close> is set and every check observes \<^verbatim>\<open>uploading\<close> or \<^verbatim>\<open>processing\<close>, the
    operation never returns.
\<close>

theorem asset_post_flow:
  assumes "net w (net_calls w)
      (ClientCall POST (post_endpoint lib collection asset_name params presigned)
        (if \<not> presigned then Some data else None)) = Inr r0"
    and "status_code r0 = 200 \<or> status_code r0 = 204"
    and "decode_response lib True False True r0 = Return c"
    and "subscript c (str_of ''id'') = Return aid"
  shows "(headers r0 (str_of ''Location'') = None
        \<longrightarrow> asset_post lib collection asset_name data params presigned wait verify w
            = Some (Return c,
                w\<lparr>trace := trace w
                  @ [ClientCall POST (post_endpoint lib collection asset_name params presigned)
                       (if \<not> presigned then Some data else None)]\<rparr>))
      \<and> (\<forall>loc payload rp rf rec.
            headers r0 (str_of ''Location'') = Some loc
          \<and> encode_data data = Return payload
          \<and> net w (net_calls w + 1) (RequestsPut loc (strip payload) verify) = Inr rp
          \<and> net w (net_calls w + 2)
              (ClientCall GET
                (str_of ''/{tenant}/'' @ collection @ str_of ''/assets/'' @ py_str lib aid)
                None) = Inr rf
          \<and> (status_code rf = 200 \<or> status_code rf = 204)
          \<and> headers rf (str_of ''Location'') = None
          \<and> decode_response lib True False True rf = Return rec
        \<longrightarrow> asset_post lib collection asset_name data params presigned False verify w
            = Some (Return rec,
                w\<lparr>trace := trace w
                  @ [ClientCall POST (post_endpoint lib collection asset_name params presigned)
                       (if \<not> presigned then Some data else None),
                     RequestsPut loc (strip payload) verify,
                     ClientCall GET
                       (str_of ''/{tenant}/'' @ collection @ str_of ''/assets/''
                          @ py_str lib aid) None]\<rparr>))
      \<and> (\<forall>loc payload rp R n rf rec.
            headers r0 (str_of ''Location'') = Some loc
          \<and> encode_data data = Return payload
          \<and> net w (net_calls w + 1) (RequestsPut loc (strip payload) verify) = Inr rp
          \<and> (\<forall>i\<le>n. net w (net_calls w + 2 + i)
                  (ClientCall GET
                    (str_of ''/{tenant}/'' @ collection @ str_of ''/assets/'' @ py_str lib aid)
                    None) = Inr (R i)
                \<and> (status_code (R i) = 200 \<or> status_code (R i) = 204)
                \<and> headers (R i) (str_of ''Location'') = None)
          \<and> (\<forall>i<n. \<exists>a. decode_response lib True False True (R i) = Return a
                \<and> (subscript a (str_of ''status'') = Return (JString (str_of ''uploading''))
                   \<or> subscript a (str_of ''status'')
                      = Return (JString (str_of ''processing''))))
          \<and> (\<exists>a st. decode_response lib True False True (R n) = Return a
                \<and> subscript a (str_of ''status'') = Return st
                \<and> st \<noteq> JString (str_of ''uploading'')
                \<and> st \<noteq> JString (str_of ''processing''))
          \<and> net w (net_calls w + 3 + n)
              (ClientCall GET
                (str_of ''/{tenant}/'' @ collection @ str_of ''/assets/'' @ py_str lib aid)
                None) = Inr rf
          \<and> (status_code rf = 200 \<or> status_code rf = 204)
          \<and> headers rf (str_of ''Location'') = None
          \<and> decode_response lib True False True rf = Return rec
        \<longrightarrow> asset_post lib collection asset_name data params presigned True verify w
            = Some (Return rec,
                w\<lparr>trace := trace w
                  @ [ClientCall POST (post_endpoint lib collection asset_name params presigned)
                       (if \<not> presigned then Some data else None),
                     RequestsPut loc (strip payload) verify,
                     ClientCall GET
                       (str_of ''/{tenant}/'' @ collection @ str_of ''/assets/''
                          @ py_str lib aid) None]
                  @ concat (replicate n
                      [ClientCall GET
                         (str_of ''/{tenant}/'' @ collection @ str_of ''/assets/''
                            @ py_str lib aid) None,
                       Slept 1])
                  @ [ClientCall GET
                       (str_of ''/{tenant}/'' @ collection @ str_of ''/assets/''
                          @ py_str lib aid) None]\<rparr>))
      \<and> (\<forall>loc payload rp.
            headers r0 (str_of ''Location'') = Some loc
          \<and> encode_data data = Return payload
          \<and> net w (net_calls w + 1) (RequestsPut loc (strip payload) verify) = Inr rp
          \<and> (\<forall>k\<ge>net_calls w + 2. \<exists>r a.
                  net w k
                    (ClientCall GET
                      (str_of ''/{tenant}/'' @ collection @ str_of ''/assets/''
                         @ py_str lib aid) None) = Inr r
                \<and> (status_code r = 200 \<or> status_code r = 204)
                \<and> headers r (str_of ''Location'') = None
                \<and> decode_response lib True False True r = Return a
                \<and> (subscript a (str_of ''status'') = Return (JString (str_of ''uploading''))
                   \<or> subscript a (str_of ''status'')
                      = Return (JString (str_of ''processing''))))
        \<longrightarrow> asset_post lib collection asset_name data params presigned True verify w = None)"
proof (intro conjI allI impI)
  let ?post = "ClientCall POST (post_endpoint lib collection asset_name params presigned)
      (if \<not> presigned then Some data else None)"
  assume "headers r0 (str_of ''Location'') = None"
  then have "asset_post_body lib collection asset_name data params presigned wait verify w
      = Some (Return c, w\<lparr>trace := trace w @ [?post]\<rparr>)"
    using assms
    by (simp add: asset_post_body_def bind_prog_def network_def get_content_inline
        outcome_prog_def return_prog_def record_event_def)
  then show "asset_post lib collection asset_name data params presigned wait verify w
      = Some (Return c, w\<lparr>trace := trace w @ [?post]\<rparr>)"
    by (rule asset_post_done)
next
  let ?post = "ClientCall POST (post_endpoint lib collection asset_name params presigned)
      (if \<not> presigned then Some data else None)"
  let ?get = "ClientCall GET
      (str_of ''/{tenant}/'' @ collection @ str_of ''/assets/'' @ py_str lib aid) None"
  fix loc payload rp rf rec
  let ?put = "RequestsPut loc (strip payload) verify"
  let ?w2 = "w\<lparr>trace := trace w @ [?post, ?put]\<rparr>"
  assume h: "headers r0 (str_of ''Location'') = Some loc
          \<and> encode_data data = Return payload
          \<and> net w (net_calls w + 1) ?put = Inr rp
          \<and> net w (net_calls w + 2) ?get = Inr rf
          \<and> (status_code rf = 200 \<or> status_code rf = 204)
          \<and> headers rf (str_of ''Location'') = None
          \<and> decode_response lib True False True rf = Return rec"
  have w1: "record_event ?post w = w\<lparr>trace := trace w @ [?post]\<rparr>"
    by (simp add: record_event_def)
  have calls: "net_calls (w\<lparr>trace := trace w @ [?post]\<rparr>) = net_calls w + 1"
    by (simp add: net_calls_def)
  have w2: "record_event ?put (w\<lparr>trace := trace w @ [?post]\<rparr>) = ?w2"
    by (simp add: record_event_def)
  from h have loc: "headers r0 (str_of ''Location'') = Some loc"
    and enc: "encode_data data = Return payload"
    and put: "net w (net_calls w + 1) ?put = Inr rp"
    and rf: "net w (net_calls w + 2) ?get = Inr rf"
      "status_code rf = 200 \<or> status_code rf = 204"
      "headers rf (str_of ''Location'') = None"
    and rec: "decode_response lib True False True rf = Return rec"
    by simp_all
  have start: "asset_post_body lib collection asset_name data params presigned False verify w
      = asset_get lib collection aid False ?w2"
    using assms loc enc put
    by (simp add: asset_post_body_def bind_prog_def network_def get_content_inline
        outcome_prog_def return_prog_def w1 calls w2)
  have calls2: "net_calls ?w2 = net_calls w + 2" by (simp add: net_calls_def)
  have "net ?w2 (net_calls ?w2) ?get = Inr rf" using rf(1) by (simp add: calls2)
  from asset_get_answer [OF this rf(2,3), of False]
  have "asset_get lib collection aid False ?w2 = Some (Return rec, record_event ?get ?w2)"
    using rec by simp
  then have "asset_post_body lib collection asset_name data params presigned False verify w
      = Some (Return rec, w\<lparr>trace := trace w @ [?post, ?put, ?get]\<rparr>)"
    unfolding start by (simp add: record_event_def)
  then show "asset_post lib collection asset_name data params presigned False verify w
      = Some (Return rec, w\<lparr>trace := trace w @ [?post, ?put, ?get]\<rparr>)"
    by (rule asset_post_done)
next
  let ?post = "ClientCall POST (post_endpoint lib collection asset_name params presigned)
      (if \<not> presigned then Some data else None)"
  let ?get = "ClientCall GET
      (str_of ''/{tenant}/'' @ collection @ str_of ''/assets/'' @ py_str lib aid) None"
  fix loc payload rp and R :: "nat \<Rightarrow> response" and n rf rec
  let ?put = "RequestsPut loc (strip payload) verify"
  let ?w2 = "w\<lparr>trace := trace w @ [?post, ?put]\<rparr>"
  let ?w3 = "?w2\<lparr>trace := trace ?w2 @ ?get # concat (replicate n [?get, Slept 1])\<rparr>"
  assume h: "headers r0 (str_of ''Location'') = Some loc
          \<and> encode_data data = Return payload
          \<and> net w (net_calls w + 1) ?put = Inr rp
          \<and> (\<forall>i\<le>n. net w (net_calls w + 2 + i) ?get = Inr (R i)
                \<and> (status_code (R i) = 200 \<or> status_code (R i) = 204)
                \<and> headers (R i) (str_of ''Location'') = None)
          \<and> (\<forall>i<n. \<exists>a. decode_response lib True False True (R i) = Return a
                \<and> (subscript a (str_of ''status'') = Return (JString (str_of ''uploading''))
                   \<or> subscript a (str_of ''status'')
                      = Return (JString (str_of ''processing''))))
          \<and> (\<exists>a st. decode_response lib True False True (R n) = Return a
                \<and> subscript a (str_of ''status'') = Return st
                \<and> st \<noteq> JString (str_of ''uploading'')
                \<and> st \<noteq> JString (str_of ''processing''))
          \<and> net w (net_calls w + 3 + n) ?get = Inr rf
          \<and> (status_code rf = 200 \<or> status_code rf = 204)
          \<and> headers rf (str_of ''Location'') = None
          \<and> decode_response lib True False True rf = Return rec"
  have w1: "record_event ?post w = w\<lparr>trace := trace w @ [?post]\<rparr>"
    by (simp add: record_event_def)
  have calls: "net_calls (w\<lparr>trace := trace w @ [?post]\<rparr>) = net_calls w + 1"
    by (simp add: net_calls_def)
  have w2: "record_event ?put (w\<lparr>trace := trace w @ [?post]\<rparr>) = ?w2"
    by (simp add: record_event_def)
  from h have loc: "headers r0 (str_of ''Location'') = Some loc"
    and enc: "encode_data data = Return payload"
    and put: "net w (net_calls w + 1) ?put = Inr rp"
    and answers: "\<forall>i\<le>n. net w (net_calls w + 2 + i) ?get = Inr (R i)
                \<and> (status_code (R i) = 200 \<or> status_code (R i) = 204)
                \<and> headers (R i) (str_of ''Location'') = None"
    and pending: "\<forall>i<n. \<exists>a. decode_response lib True False True (R i) = Return a
                \<and> (subscript a (str_of ''status'') = Return (JString (str_of ''uploading''))
                   \<or> subscript a (str_of ''status'')
                      = Return (JString (str_of ''processing'')))"
    and final: "\<exists>a st. decode_response lib True False True (R n) = Return a
                \<and> subscript a (str_of ''status'') = Return st
                \<and> st \<noteq> JString (str_of ''uploading'')
                \<and> st \<noteq> JString (str_of ''processing'')"
    and rf: "net w (net_calls w + 3 + n) ?get = Inr rf"
      "status_code rf = 200 \<or> status_code rf = 204"
      "headers rf (str_of ''Location'') = None"
    and rec: "decode_response lib True False True rf = Return rec"
    by simp_all
  have start: "asset_post_body lib collection asset_name data params presigned True verify w
      = bind_prog (asset_polling lib collection aid)
          (\<lambda>status. asset_get lib collection aid False) ?w2"
    using assms loc enc put
    by (simp add: asset_post_body_def bind_prog_def network_def get_content_inline
        outcome_prog_def return_prog_def w1 calls w2
        split: option.split prod.split outcome.split)
  define A where "A i = (case decode_response lib True False True (R i) of
      Return a \<Rightarrow> a | Raise e \<Rightarrow> RawBytes [])" for i
  from final obtain an st where an: "decode_response lib True False True (R n) = Return an"
    and st: "subscript an (str_of ''status'') = Return st"
      "st \<noteq> JString (str_of ''uploading'')" "st \<noteq> JString (str_of ''processing'')"
    by blast
  have decoded: "decode_response lib True False True (R i) = Return (A i)" if "i \<le> n" for i
  proof (cases "i < n")
    case True
    with pending obtain a where "decode_response lib True False True (R i) = Return a"
      by blast
    then show ?thesis by (simp add: A_def)
  next
    case False
    with that have "i = n" by simp
    with an show ?thesis by (simp add: A_def)
  qed
  have calls2: "net_calls ?w2 = net_calls w + 2" by (simp add: net_calls_def)
  have poll: "asset_polling lib collection aid ?w2 = Some (Return st, ?w3)"
  proof (rule asset_polling_run [of n ?w2 collection lib aid R A st])
    show "\<forall>i\<le>n. net ?w2 (net_calls ?w2 + i) ?get = Inr (R i)
        \<and> (status_code (R i) = 200 \<or> status_code (R i) = 204)
        \<and> headers (R i) (str_of ''Location'') = None
        \<and> decode_response lib True False True (R i) = Return (A i)"
      using answers decoded by (simp add: calls2)
    show "\<forall>i<n. subscript (A i) (str_of ''status'') = Return (JString (str_of ''uploading''))
        \<or> subscript (A i) (str_of ''status'') = Return (JString (str_of ''processing''))"
    proof (intro allI impI)
      fix i assume "i < n"
      with pending obtain a where a: "decode_response lib True False True (R i) = Return a"
        "subscript a (str_of ''status'') = Return (JString (str_of ''uploading''))
          \<or> subscript a (str_of ''status'') = Return (JString (str_of ''processing''))"
        by blast
      from a(1) have "A i = a" by (simp add: A_def)
      with a(2) show "subscript (A i) (str_of ''status'')
            = Return (JString (str_of ''uploading''))
          \<or> subscript (A i) (str_of ''status'') = Return (JString (str_of ''processing''))"
        by simp
    qed
    show "subscript (A n) (str_of ''status'') = Return st"
      using an st(1) by (simp add: A_def)
    show "st \<noteq> JString (str_of ''uploading'')" by (rule st(2))
    show "st \<noteq> JString (str_of ''processing'')" by (rule st(3))
  qed
  have calls3: "net_calls ?w3 = net_calls w + 3 + n"
    by (simp add: net_calls_def filter_checks)
  have net3: "net ?w3 = net w" by simp
  have "net ?w3 (net_calls ?w3) ?get = Inr rf" unfolding calls3 net3 by (rule rf(1))
  from asset_get_answer [OF this rf(2,3), of False]
  have fetch: "asset_get lib collection aid False ?w3
      = Some (Return rec, record_event ?get ?w3)"
    using rec by simp
  have "asset_post_body lib collection asset_name data params presigned True verify w
      = Some (Return rec, record_event ?get ?w3)"
    unfolding start using poll fetch by (simp add: bind_prog_def)
  also have "record_event ?get ?w3
      = w\<lparr>trace := trace w @ [?post, ?put, ?get] @ concat (replicate n [?get, Slept 1])
          @ [?get]\<rparr>"
    by (simp add: record_event_def)
  finally show "asset_post lib collection asset_name data params presigned True verify w
      = Some (Return rec,
          w\<lparr>trace := trace w @ [?post, ?put, ?get] @ concat (replicate n [?get, Slept 1])
            @ [?get]\<rparr>)"
    by (rule asset_post_done)
next
  let ?post = "ClientCall POST (post_endpoint lib collection asset_name params presigned)
      (if \<not> presigned then Some data else None)"
  let ?get = "ClientCall GET
      (str_of ''/{tenant}/'' @ collection @ str_of ''/assets/'' @ py_str lib aid) None"
  fix loc payload rp
  let ?put = "RequestsPut loc (strip payload) verify"
  let ?w2 = "w\<lparr>trace := trace w @ [?post, ?put]\<rparr>"
  assume h: "headers r0 (str_of ''Location'') = Some loc
          \<and> encode_data data = Return payload
          \<and> net w (net_calls w + 1) ?put = Inr rp
          \<and> (\<forall>k\<ge>net_calls w + 2. \<exists>r a.
                  net w k ?get = Inr r
                \<and> (status_code r = 200 \<or> status_code r = 204)
                \<and> headers r (str_of ''Location'') = None
                \<and> decode_response lib True False True r = Return a
                \<and> (subscript a (str_of ''status'') = Return (JString (str_of ''uploading''))
                   \<or> subscript a (str_of ''status'')
                      = Return (JString (str_of ''processing''))))"
  have w1: "record_event ?post w = w\<lparr>trace := trace w @ [?post]\<rparr>"
    by (simp add: record_event_def)
  have calls: "net_calls (w\<lparr>trace := trace w @ [?post]\<rparr>) = net_calls w + 1"
    by (simp add: net_calls_def)
  have w2: "record_event ?put (w\<lparr>trace := trace w @ [?post]\<rparr>) = ?w2"
    by (simp add: record_event_def)
  from h have loc: "headers r0 (str_of ''Location'') = Some loc"
    and enc: "encode_data data = Return payload"
    and put: "net w (net_calls w + 1) ?put = Inr rp"
    and answers: "\<forall>k\<ge>net_calls w + 2. \<exists>r a.
                  net w k ?get = Inr r
                \<and> (status_code r = 200 \<or> status_code r = 204)
                \<and> headers r (str_of ''Location'') = None
                \<and> decode_response lib True False True r = Return a
                \<and> (subscript a (str_of ''status'') = Return (JString (str_of ''uploading''))
                   \<or> subscript a (str_of ''status'')
                      = Return (JString (str_of ''processing'')))"
    by simp_all
  have start: "asset_post_body lib collection asset_name data params presigned True verify w
      = bind_prog (asset_polling lib collection aid)
          (\<lambda>status. asset_get lib collection aid False) ?w2"
    using assms loc enc put
    by (simp add: asset_post_body_def bind_prog_def network_def get_content_inline
        outcome_prog_def return_prog_def w1 calls w2
        split: option.split prod.split outcome.split)
  have calls2: "net_calls ?w2 = net_calls w + 2" by (simp add: net_calls_def)
  have net2: "net ?w2 = net w" by simp
  have "asset_polling lib collection aid ?w2 = None"
  proof (rule asset_polling_pending)
    show "\<forall>k\<ge>net_calls ?w2. \<exists>r a.
                  net ?w2 k ?get = Inr r
                \<and> (status_code r = 200 \<or> status_code r = 204)
                \<and> headers r (str_of ''Location'') = None
                \<and> decode_response lib True False True r = Return a
                \<and> (subscript a (str_of ''status'') = Return (JString (str_of ''uploading''))
                   \<or> subscript a (str_of ''status'')
                      = Return (JString (str_of ''processing'')))"
      unfolding calls2 net2 by (rule answers)
  qed
  then have "asset_post_body lib collection asset_name data params presigned True verify w
      = None"
    unfolding start by (simp add: bind_prog_def)
  then show "asset_post lib collection asset_name data params presigned True verify w = None"
    unfolding asset_post_def exception_handler_def by (rule retry_none)
qed

lemma sample_post_endpoint:
  "post_endpoint sample_lib (str_of ''portfolios'') (str_of ''name'') None False
    = str_of ''/{tenant}/portfolios/assets?assetName=name''"
  by (simp add: post_endpoint_def sample_lib_def str_of_def)

lemma encode_utf8_ascii:
  "list_all (\<lambda>c. (of_char c :: nat) < 128) cs \<Longrightarrow> encode_utf8 (str_of cs) = Some cs"
  by (induction cs) (simp_all add: str_of_simps encode_char_def)

lemma sample_encode:
  "encode_data (JString (str_of ''payload-text'')) = Return ''payload-text''"
  "encode_data (JString (str_of ''payload-text\<newline>'')) = Return ''payload-text\<newline>''"
  by (simp_all add: encode_data_def encode_utf8_ascii)

lemma sample_strip:
  "strip ''payload-text'' = ''payload-text''"
  "strip ''payload-text\<newline>'' = ''payload-text''"
  by (simp_all add: strip_def is_space_def)

lemma sample_created:
  "decode_response sample_lib True False True
      \<lparr>status_code = 200, headers = [str_of ''Location'' \<mapsto> str_of ''https://s/up''],
       content = asset_doc ''uploading''\<rparr>
    = Return (Structured (asset_record ''uploading''))"
  by (simp add: decode_response_def decode_body_def sample_lib_def asset_doc_def)

text \<open>
  Claim C9 as stated fails: the payload \<^verbatim>\<open>"payload-text\n"\<close> is not what is PUT. The
  bytes sent are \<^verbatim>\<open>data.encode("utf-8").strip()\<close>, without the final newline.
\<close>

theorem asset_post_strips_payload_counterexample:
  "asset_post sample_lib (str_of ''portfolios'') (str_of ''name'')
      (JString (str_of ''payload-text\<newline>'')) None False False True
      \<lparr>net = create_server, trace = []\<rparr>
    = Some (Return (Structured (asset_record ''uploading'')),
        \<lparr>net = create_server,
         trace = [ClientCall POST (str_of ''/{tenant}/portfolios/assets?assetName=name'')
                    (Some (JString (str_of ''payload-text\<newline>''))),
                  RequestsPut (str_of ''https://s/up'') ''payload-text'' True,
                  ClientCall GET (str_of ''/{tenant}/portfolios/assets/a1'') None]\<rparr>)
   \<and> encode_data (JString (str_of ''payload-text\<newline>'')) = Return ''payload-text\<newline>''
   \<and> ''payload-text'' \<noteq> ''payload-text\<newline>''"
proof (intro conjI)
  let ?post = "ClientCall POST (str_of ''/{tenant}/portfolios/assets?assetName=name'')
      (Some (JString (str_of ''payload-text\<newline>'')))"
  let ?put = "RequestsPut (str_of ''https://s/up'') ''payload-text'' True"
  let ?get = "ClientCall GET (str_of ''/{tenant}/portfolios/assets/a1'') None"
  have fetch: "asset_get sample_lib (str_of ''portfolios'') (JString (str_of ''a1'')) False
      \<lparr>net = create_server, trace = [?post, ?put]\<rparr>
    = Some (Return (Structured (asset_record ''uploading'')),
        \<lparr>net = create_server, trace = [?post, ?put, ?get]\<rparr>)"
    using sample_asset_get [of "\<lparr>net = create_server, trace = [?post, ?put]\<rparr>" "''uploading''"]
    by (simp add: net_calls_def create_server_def upload_server_def record_event_def)
  have "asset_post_body sample_lib (str_of ''portfolios'') (str_of ''name'')
      (JString (str_of ''payload-text\<newline>'')) None False False True
      \<lparr>net = create_server, trace = []\<rparr>
    = Some (Return (Structured (asset_record ''uploading'')),
        \<lparr>net = create_server, trace = [?post, ?put, ?get]\<rparr>)"
    by (simp add: asset_post_body_def bind_prog_def network_def get_content_inline
        outcome_prog_def return_prog_def record_event_def net_calls_def create_server_def
        sample_post_endpoint sample_created sample_encode sample_strip sample_id fetch)
  then show "asset_post sample_lib (str_of ''portfolios'') (str_of ''name'')
      (JString (str_of ''payload-text\<newline>'')) None False False True
      \<lparr>net = create_server, trace = []\<rparr>
    = Some (Return (Structured (asset_record ''uploading'')),
        \<lparr>net = create_server, trace = [?post, ?put, ?get]\<rparr>)"
    by (rule asset_post_done)
  show "encode_data (JString (str_of ''payload-text\<newline>'')) = Return ''payload-text\<newline>''"
    by (rule sample_encode)
  show "''payload-text'' \<noteq> ''payload-text\<newline>''" by simp
qed

lemma respond_sel:
  "status_code (respond b) = 200" "headers (respond b) = Map.empty" "content (respond b) = b"
  by (simp_all add: respond_def)

lemma sample_asset_endpoint:
  "str_of ''/{tenant}/'' @ str_of ''portfolios'' @ str_of ''/assets/''
      @ py_str sample_lib (JString (str_of ''a1''))
    = str_of ''/{tenant}/portfolios/assets/a1''"
  by (simp add: str_of_def py_str_def)

text \<open>The theorem on the sample server, with \<open>wait\<close> set and not set; on a server that
  answers the POST without a Location header; and on a server where the asset stays
  \<^verbatim>\<open>uploading\<close>.\<close>

theorem asset_post_flow_witness:
  "asset_post sample_lib (str_of ''portfolios'') (str_of ''name'')
      (JString (str_of ''payload-text'')) None False True True
      \<lparr>net = create_server, trace = []\<rparr>
    = Some (Return (Structured (asset_record ''ready'')),
        \<lparr>net = create_server,
         trace = [ClientCall POST (str_of ''/{tenant}/portfolios/assets?assetName=name'')
                    (Some (JString (str_of ''payload-text''))),
                  RequestsPut (str_of ''https://s/up'') ''payload-text'' True,
                  ClientCall GET (str_of ''/{tenant}/portfolios/assets/a1'') None,
                  ClientCall GET (str_of ''/{tenant}/portfolios/assets/a1'') None, Slept 1,
                  ClientCall GET (str_of ''/{tenant}/portfolios/assets/a1'') None, Slept 1,
                  ClientCall GET (str_of ''/{tenant}/portfolios/assets/a1'') None]\<rparr>)
   \<and> asset_post sample_lib (str_of ''portfolios'') (str_of ''name'')
      (JString (str_of ''payload-text'')) None False False True
      \<lparr>net = create_server, trace = []\<rparr>
    = Some (Return (Structured (asset_record ''uploading'')),
        \<lparr>net = create_server,
         trace = [ClientCall POST (str_of ''/{tenant}/portfolios/assets?assetName=name'')
                    (Some (JString (str_of ''payload-text''))),
                  RequestsPut (str_of ''https://s/up'') ''payload-text'' True,
                  ClientCall GET (str_of ''/{tenant}/portfolios/assets/a1'') None]\<rparr>)
   \<and> asset_post sample_lib (str_of ''portfolios'') (str_of ''name'')
      (JString (str_of ''payload-text'')) None False True True
      \<lparr>net = (\<lambda>k e. Inr (respond (asset_doc ''ready''))), trace = []\<rparr>
    = Some (Return (Structured (asset_record ''ready'')),
        \<lparr>net = (\<lambda>k e. Inr (respond (asset_doc ''ready''))),
         trace = [ClientCall POST (str_of ''/{tenant}/portfolios/assets?assetName=name'')
                    (Some (JString (str_of ''payload-text'')))]\<rparr>)
   \<and> asset_post sample_lib (str_of ''portfolios'') (str_of ''name'')
      (JString (str_of ''payload-text'')) None False True True
      \<lparr>net = (\<lambda>k e. if k = 0 then create_server k e
                 else Inr (respond (asset_doc ''uploading''))),
       trace = []\<rparr>
    = None"
proof (intro conjI)
  let ?post = "ClientCall POST (str_of ''/{tenant}/portfolios/assets?assetName=name'')
      (Some (JString (str_of ''payload-text'')))"
  let ?put = "RequestsPut (str_of ''https://s/up'') ''payload-text'' True"
  let ?get = "ClientCall GET (str_of ''/{tenant}/portfolios/assets/a1'') None"
  let ?w0 = "\<lparr>net = create_server, trace = []\<rparr>"
  let ?r0 = "\<lparr>status_code = 200, headers = [str_of ''Location'' \<mapsto> str_of ''https://s/up''],
      content = asset_doc ''uploading''\<rparr>"
  note waiting = asset_post_flow [where w = ?w0 and lib = sample_lib
      and collection = "str_of ''portfolios''" and asset_name = "str_of ''name''"
      and params = None and presigned = False and data = "JString (str_of ''payload-text'')"
      and ?r0.0 = ?r0 and c = "Structured (asset_record ''uploading'')"
      and aid = "JString (str_of ''a1'')" and wait = True and verify = True,
      THEN conjunct2, THEN conjunct2, THEN conjunct1,
      THEN spec [where x = "str_of ''https://s/up''"], THEN spec [where x = "''payload-text''"],
      THEN spec [where x = "respond []"],
      THEN spec [where x = "\<lambda>i. respond (asset_doc
        (if i = 0 then ''uploading'' else if i = 1 then ''processing'' else ''ready''))"],
      THEN spec [where x = 2], THEN spec [where x = "respond (asset_doc ''ready'')"],
      THEN spec [where x = "Structured (asset_record ''ready'')"], THEN mp]
  show "asset_post sample_lib (str_of ''portfolios'') (str_of ''name'')
      (JString (str_of ''payload-text'')) None False True True ?w0
    = Some (Return (Structured (asset_record ''ready'')),
        \<lparr>net = create_server,
         trace = [?post, ?put, ?get, ?get, Slept 1, ?get, Slept 1, ?get]\<rparr>)"
    using waiting
    by (simp add: sample_post_endpoint sample_created sample_id sample_encode sample_strip
        sample_asset_endpoint sample_decode_asset sample_status net_calls_def create_server_def
        upload_server_def respond_sel le_Suc_eq less_Suc_eq numeral_2_eq_2
        numeral_3_eq_3)
next
  let ?post = "ClientCall POST (str_of ''/{tenant}/portfolios/assets?assetName=name'')
      (Some (JString (str_of ''payload-text'')))"
  let ?put = "RequestsPut (str_of ''https://s/up'') ''payload-text'' True"
  let ?get = "ClientCall GET (str_of ''/{tenant}/portfolios/assets/a1'') None"
  let ?w0 = "\<lparr>net = create_server, trace = []\<rparr>"
  let ?r0 = "\<lparr>status_code = 200, headers = [str_of ''Location'' \<mapsto> str_of ''https://s/up''],
      content = asset_doc ''uploading''\<rparr>"
  note direct = asset_post_flow [where w = ?w0 and lib = sample_lib
      and collection = "str_of ''portfolios''" and asset_name = "str_of ''name''"
      and params = None and presigned = False and data = "JString (str_of ''payload-text'')"
      and ?r0.0 = ?r0 and c = "Structured (asset_record ''uploading'')"
      and aid = "JString (str_of ''a1'')" and wait = False and verify = True,
      THEN conjunct2, THEN conjunct1,
      THEN spec [where x = "str_of ''https://s/up''"], THEN spec [where x = "''payload-text''"],
      THEN spec [where x = "respond []"],
      THEN spec [where x = "respond (asset_doc ''uploading'')"],
      THEN spec [where x = "Structured (asset_record ''uploading'')"], THEN mp]
  show "asset_post sample_lib (str_of ''portfolios'') (str_of ''name'')
      (JString (str_of ''payload-text'')) None False False True ?w0
    = Some (Return (Structured (asset_record ''uploading'')),
        \<lparr>net = create_server, trace = [?post, ?put, ?get]\<rparr>)"
    using direct
    by (simp add: sample_post_endpoint sample_created sample_id sample_encode sample_strip
        sample_asset_endpoint sample_decode_asset net_calls_def create_server_def
        upload_server_def respond_sel)
next
  let ?post = "ClientCall POST (str_of ''/{tenant}/portfolios/assets?assetName=name'')
      (Some (JString (str_of ''payload-text'')))"
  let ?r0 = "\<lparr>net = (\<lambda>k e. Inr (respond (asset_doc ''ready''))), trace = []\<rparr>"
  show "asset_post sample_lib (str_of ''portfolios'') (str_of ''name'')
      (JString (str_of ''payload-text'')) None False True True ?r0
    = Some (Return (Structured (asset_record ''ready'')),
        \<lparr>net = (\<lambda>k e. Inr (respond (asset_doc ''ready''))), trace = [?post]\<rparr>)"
    using asset_post_flow [of ?r0 sample_lib "str_of ''portfolios''" "str_of ''name''" None False
        "JString (str_of ''payload-text'')" "respond (asset_doc ''ready'')"
        "Structured (asset_record ''ready'')" "JString (str_of ''a1'')" True True,
        THEN conjunct1]
      sample_decode_asset [of "''ready''"]
    by (simp add: sample_post_endpoint sample_id net_calls_def respond_def)
next
  let ?w0 = "\<lparr>net = (\<lambda>k e. if k = 0 then create_server k e
      else Inr (respond (asset_doc ''uploading''))), trace = []\<rparr>"
  let ?r0 = "\<lparr>status_code = 200, headers = [str_of ''Location'' \<mapsto> str_of ''https://s/up''],
      content = asset_doc ''uploading''\<rparr>"
  note stuck = asset_post_flow [where w = ?w0 and lib = sample_lib
      and collection = "str_of ''portfolios''" and asset_name = "str_of ''name''"
      and params = None and presigned = False and data = "JString (str_of ''payload-text'')"
      and ?r0.0 = ?r0 and c = "Structured (asset_record ''uploading'')"
      and aid = "JString (str_of ''a1'')" and wait = True and verify = True,
      THEN conjunct2, THEN conjunct2, THEN conjunct2,
      THEN spec [where x = "str_of ''https://s/up''"], THEN spec [where x = "''payload-text''"],
      THEN spec [where x = "respond (asset_doc ''uploading'')"], THEN mp]
  show "asset_post sample_lib (str_of ''portfolios'') (str_of ''name'')
      (JString (str_of ''payload-text'')) None False True True ?w0 = None"
    using stuck
    by (simp add: sample_post_endpoint sample_created sample_id sample_encode sample_strip
        sample_asset_endpoint sample_decode_asset sample_status net_calls_def create_server_def
        respond_sel)
qed

end
